theory Spec2Isabelle
  imports Complex_Main "HOL-Library.Word" "HOL-Library.Multiset"
begin

section \<open>Numbers\<close>

text \<open>
  A JavaScript \<open>number\<close> is an IEEE 754 binary64 value. A finite one is modelled by
  the real number it denotes, and an arithmetic operation by the exact result rounded
  to the nearest binary64 value, a tie going to the even significand. Infinities, NaN
  and results beyond the largest finite double are not modelled. Comparisons of finite
  doubles are the comparisons of the reals they denote.
\<close>

text \<open>The number of binary digits of a natural number.\<close>

fun bits :: "nat \<Rightarrow> nat" where
  "bits n = (if n = 0 then 0 else Suc (bits (n div 2)))"

declare bits.simps [simp del]

definition pow2 :: "int \<Rightarrow> real" where
  "pow2 e = (if 0 \<le> e then 2 ^ nat e else 1 / 2 ^ nat (- e))"

text \<open>The binary exponent of a positive real: \<open>pow2 e \<le> x < pow2 (e + 1)\<close>.\<close>

definition binexp :: "real \<Rightarrow> int" where
  "binexp x = (if 1 \<le> x then int (bits (nat \<lfloor>x\<rfloor>)) - 1
               else - int (bits (nat (\<lceil>1 / x\<rceil> - 1))))"

definition round_even :: "real \<Rightarrow> int" where
  "round_even x =
     (let f = \<lfloor>x\<rfloor>; r = x - real_of_int f
      in if r < 1 / 2 then f
         else if r > 1 / 2 then f + 1
         else if even f then f else f + 1)"

text \<open>
  Rounding to binary64: 53 significant bits, and below the smallest normal number the
  fixed spacing of the subnormal numbers.
\<close>

definition rd :: "real \<Rightarrow> real" where
  "rd x =
     (if x = 0 then 0
      else let e = max (binexp \<bar>x\<bar>) (- 1022); q = pow2 (e - 52)
           in real_of_int (round_even (x / q)) * q)"

definition unit_roundoff :: real where
  "unit_roundoff = 1 / 2 ^ 53"

definition js_add :: "real \<Rightarrow> real \<Rightarrow> real" where
  "js_add x y = rd (x + y)"

definition js_sub :: "real \<Rightarrow> real \<Rightarrow> real" where
  "js_sub x y = rd (x - y)"

definition js_mul :: "real \<Rightarrow> real \<Rightarrow> real" where
  "js_mul x y = rd (x * y)"

definition js_div :: "real \<Rightarrow> real \<Rightarrow> real" where
  "js_div x y = rd (x / y)"

text \<open>A decimal literal of the source denotes the double nearest to it.\<close>

definition literal :: "real \<Rightarrow> real" where
  "literal x = rd x"

text \<open>
  \<open>Math.round\<close> gives the nearest integer, a tie going up, and \<open>Math.floor\<close> the
  integer below; both are exact on a double.
\<close>

definition Math_round :: "real \<Rightarrow> int" where
  "Math_round x = \<lfloor>x + 1 / 2\<rfloor>"

definition Math_floor :: "real \<Rightarrow> int" where
  "Math_floor x = \<lfloor>x\<rfloor>"

section \<open>Basis-point conversions\<close>

definition probToBps :: "real \<Rightarrow> int" where
  "probToBps probability = Math_round (js_mul probability 10000)"

definition sentimentToBps :: "real \<Rightarrow> int" where
  "sentimentToBps sentiment = Math_round (js_mul (js_add sentiment 1) 5000)"

definition bpsToProb :: "int \<Rightarrow> real" where
  "bpsToProb bps = js_div (real_of_int bps) 10000"

definition bpsToSentiment :: "int \<Rightarrow> real" where
  "bpsToSentiment bps = js_sub (js_div (real_of_int bps) 5000) 1"

section \<open>The relational data model\<close>

text \<open>
  The tables of the persistence layer. A timestamp is the number of milliseconds since
  the epoch, as \<open>Date.getTime\<close> gives it. The status enum is the one the migration
  declares.

  A strategy's primary key is an opaque generated identifier, unique in its table. The
  strategy table is append-only for the code modelled here, so the identifier of a row
  is modelled by the position of the row in the table: it is unique by construction and
  a new row gets an identifier no other row has.
\<close>

datatype StrategyStatus = ACTIVE | EXECUTED | EXPIRED

type_synonym strategy_id = nat

record Strategy =
  ownerAddress :: string
  marketId :: string
  sentimentTag :: string
  minPredictionProb :: real
  minSentimentScore :: real
  notionalAmount :: real
  maxSlippageBps :: int
  expiryTimestamp :: int
  status :: StrategyStatus
  lastExecutedAt :: "int option"
  lastTxHash :: "string option"

record MarketSnapshot =
  m_marketId :: string
  m_timestamp :: int
  probability :: real

record SentimentSnapshot =
  tag :: string
  s_timestamp :: int
  score :: real

record ExecutionLog =
  strategyId :: strategy_id
  l_timestamp :: int
  success :: bool
  txHash :: "string option"
  reason :: "string option"

section \<open>The Settlement Client interface\<close>

text \<open>
  The two calls of the Settlement Client, seen from the engine: the request each one
  receives and what it gives back. \<open>executeStrategyViaMCP\<close> returns a result object
  or throws; \<open>registerStrategyOnChain\<close> returns or throws. What the chain answers is
  not decided by the engine, so both are parameters of the model.
\<close>

record ExecuteParams =
  x_strategyId :: strategy_id
  x_marketId :: string
  probBps :: int
  sentimentBps :: int

record RegisterParams =
  g_strategyId :: strategy_id
  g_ownerAddress :: string
  g_marketId :: string
  g_sentimentTag :: string
  g_minPredictionProb :: int
  g_minSentimentScore :: int
  g_notionalAmount :: int
  g_maxSlippageBps :: int
  g_expiryTimestamp :: int

record ExecutionResult =
  r_success :: bool
  r_txHash :: "string option"
  r_reason :: "string option"

datatype execute_outcome = Returned ExecutionResult | Threw string

datatype register_outcome = Registered string | RegisterThrew string

record env =
  executeStrategyViaMCP :: "ExecuteParams \<Rightarrow> execute_outcome"
  registerStrategyOnChain :: "RegisterParams \<Rightarrow> register_outcome"
  DEFAULT_ADMIN_WALLET :: "string option"

section \<open>The world the engine runs in\<close>

text \<open>
  The observable effects of a run besides the tables: every snapshot lookup made on
  behalf of a strategy and every call of the Settlement Client, in order.
\<close>

datatype event =
    MarketLookup strategy_id string
  | SentimentLookup strategy_id string
  | ExecuteCall ExecuteParams
  | RegisterCall RegisterParams

record world =
  strategies :: "Strategy list"
  marketSnapshots :: "MarketSnapshot list"
  sentimentSnapshots :: "SentimentSnapshot list"
  executionLogs :: "ExecutionLog list"
  clock :: int
  trace :: "event list"

definition delay :: "int \<Rightarrow> world \<Rightarrow> world" where
  "delay ms w = w\<lparr>clock := clock w + ms\<rparr>"

definition record_event :: "event \<Rightarrow> world \<Rightarrow> world" where
  "record_event e w = w\<lparr>trace := trace w @ [e]\<rparr>"

text \<open>\<open>findMany\<close> on the strategy table: the rows with their identifiers.\<close>

definition strategy_rows :: "world \<Rightarrow> (strategy_id \<times> Strategy) list" where
  "strategy_rows w = zip [0..<length (strategies w)] (strategies w)"

text \<open>\<open>prisma.strategy.update\<close> of the row with the given identifier.\<close>

definition update_strategy :: "strategy_id \<Rightarrow> (Strategy \<Rightarrow> Strategy) \<Rightarrow> world \<Rightarrow> world" where
  "update_strategy i f w =
     (if i < length (strategies w)
      then w\<lparr>strategies := (strategies w)[i := f (strategies w ! i)]\<rparr>
      else w)"

text \<open>\<open>prisma.executionLog.create\<close>: the timestamp column defaults to the current time.\<close>

definition create_log :: "strategy_id \<Rightarrow> bool \<Rightarrow> string option \<Rightarrow> string option \<Rightarrow> world \<Rightarrow> world" where
  "create_log i ok tx why w =
     w\<lparr>executionLogs := executionLogs w @
        [\<lparr>strategyId = i, l_timestamp = clock w, success = ok, txHash = tx, reason = why\<rparr>]\<rparr>"

text \<open>
  \<open>findFirst\<close> ordered by timestamp descending: the first row of a stable sort. Among
  rows of equal timestamp the database may return any; the model returns the one
  stored first.
\<close>

definition first_of :: "'a list \<Rightarrow> 'a option" where
  "first_of xs = (case xs of [] \<Rightarrow> None | x # _ \<Rightarrow> Some x)"

definition latestMarketSnapshot :: "world \<Rightarrow> string \<Rightarrow> MarketSnapshot option" where
  "latestMarketSnapshot w mid =
     first_of (sort_key (\<lambda>m. - m_timestamp m)
       (filter (\<lambda>m. m_marketId m = mid) (marketSnapshots w)))"

definition latestSentimentSnapshot :: "world \<Rightarrow> string \<Rightarrow> SentimentSnapshot option" where
  "latestSentimentSnapshot w t =
     first_of (sort_key (\<lambda>s. - s_timestamp s)
       (filter (\<lambda>s. tag s = t) (sentimentSnapshots w)))"

section \<open>The firing decision\<close>

datatype decision_reason =
    Missing_data
  | All_thresholds_met
  | Thresholds_not_met bool bool

record Decision =
  shouldExecute :: bool
  d_probability :: real
  d_sentiment :: real
  d_reason :: decision_reason

text \<open>
  \<open>shouldExecuteStrategy\<close>: the two lookups, the missing-data exit, the two threshold
  tests. The reason string of the source is a log message; the model keeps which of
  the three texts it is and, for unmet thresholds, the two marks it prints.
\<close>

definition decide :: "Strategy \<Rightarrow> MarketSnapshot option \<Rightarrow> SentimentSnapshot option \<Rightarrow> Decision" where
  "decide strategy latestMarket latestSentiment =
     (case latestMarket of
        None \<Rightarrow> \<lparr>shouldExecute = False, d_probability = 0, d_sentiment = 0, d_reason = Missing_data\<rparr>
      | Some m \<Rightarrow>
          (case latestSentiment of
             None \<Rightarrow> \<lparr>shouldExecute = False, d_probability = 0, d_sentiment = 0, d_reason = Missing_data\<rparr>
           | Some s \<Rightarrow>
               (let meetsProbabilityThreshold = (probability m \<ge> minPredictionProb strategy);
                    meetsSentimentThreshold = (score s \<ge> minSentimentScore strategy)
                in \<lparr>shouldExecute = meetsProbabilityThreshold \<and> meetsSentimentThreshold,
                    d_probability = probability m,
                    d_sentiment = score s,
                    d_reason =
                      (if meetsProbabilityThreshold \<and> meetsSentimentThreshold
                       then All_thresholds_met
                       else Thresholds_not_met meetsProbabilityThreshold meetsSentimentThreshold)\<rparr>)))"

definition shouldExecuteStrategy :: "world \<Rightarrow> Strategy \<Rightarrow> Decision" where
  "shouldExecuteStrategy w strategy =
     decide strategy (latestMarketSnapshot w (marketId strategy))
                     (latestSentimentSnapshot w (sentimentTag strategy))"

section \<open>Executing one strategy\<close>

text \<open>
  \<open>executeStrategy\<close>: decide, call the Settlement Client with the two signals in basis
  points, update the strategy when the call succeeded, append the log entry. An
  exception of the Settlement Client is caught and logged as a failed entry. The
  persistence layer is taken to answer every call.
\<close>

definition mark_executed :: "int \<Rightarrow> string option \<Rightarrow> Strategy \<Rightarrow> Strategy" where
  "mark_executed now tx s = s\<lparr>status := EXECUTED, lastExecutedAt := Some now, lastTxHash := tx\<rparr>"

definition execute_params :: "strategy_id \<Rightarrow> Strategy \<Rightarrow> real \<Rightarrow> real \<Rightarrow> ExecuteParams" where
  "execute_params i strategy p s =
     \<lparr>x_strategyId = i, x_marketId = marketId strategy,
      probBps = Math_round (js_mul p 10000),
      sentimentBps = Math_round (js_mul (js_add s 1) 5000)\<rparr>"

definition settle :: "env \<Rightarrow> strategy_id \<Rightarrow> ExecuteParams \<Rightarrow> world \<Rightarrow> world" where
  "settle e i params w =
     (case executeStrategyViaMCP e params of
        Returned executionResult \<Rightarrow>
          create_log i (r_success executionResult) (r_txHash executionResult) (r_reason executionResult)
            (if r_success executionResult
             then update_strategy i (mark_executed (clock w) (r_txHash executionResult)) w
             else w)
      | Threw msg \<Rightarrow> create_log i False None (Some (''Execution error: '' @ msg)) w)"

definition executeStrategy :: "env \<Rightarrow> strategy_id \<times> Strategy \<Rightarrow> world \<Rightarrow> world" where
  "executeStrategy e row w =
     (let i = fst row; strategy = snd row;
          w1 = record_event (SentimentLookup i (sentimentTag strategy))
                 (record_event (MarketLookup i (marketId strategy)) w);
          d = shouldExecuteStrategy w strategy
      in if \<not> shouldExecute d then w1
         else let params = execute_params i strategy (d_probability d) (d_sentiment d)
              in settle e i params (record_event (ExecuteCall params) w1))"

section \<open>Discovery\<close>

definition day_ms :: int where
  "day_ms = 24 * 60 * 60 * 1000"

text \<open>Prisma's \<open>distinct\<close>: of the ordered rows, the first one of each key.\<close>

fun distinct_on :: "('a \<Rightarrow> 'k) \<Rightarrow> 'k list \<Rightarrow> 'a list \<Rightarrow> 'a list" where
  "distinct_on f seen [] = []"
| "distinct_on f seen (x # xs) =
     (if f x \<in> set seen then distinct_on f seen xs else x # distinct_on f (f x # seen) xs)"

definition recentSentiments :: "world \<Rightarrow> SentimentSnapshot list" where
  "recentSentiments w =
     distinct_on tag []
       (sort_key (\<lambda>s. - score s)
         (filter (\<lambda>s. s_timestamp s \<ge> clock w - day_ms \<and> score s > literal (1 / 10))
           (sentimentSnapshots w)))"

definition recentMarkets :: "world \<Rightarrow> MarketSnapshot list" where
  "recentMarkets w =
     distinct_on m_marketId []
       (sort_key (\<lambda>m. - m_timestamp m)
         (filter (\<lambda>m. m_timestamp m \<ge> clock w - day_ms) (marketSnapshots w)))"

definition exactMap :: "(string \<times> string) list" where
  "exactMap =
     [(''TRUMP_CABINET'', ''TRUMP''),
      (''TRUMP_NOMINEE'', ''TRUMP''),
      (''ELECTION_2028'', ''ELECTION''),
      (''FED_RATES'', ''FED''),
      (''ECON_RECESSION'', ''STOCK_MARKET''),
      (''FINANCE_NVIDIA'', ''STOCK_MARKET'')]"

definition startsWith :: "string \<Rightarrow> string \<Rightarrow> bool" where
  "startsWith s p = (take (length p) s = p)"

text \<open>
  \<open>getSentimentTagForMarket\<close>: the exact table first, then the prefix rules. (A market
  identifier naming a property every JavaScript object inherits gets that property from
  the exact table, which equals no tag, so the market is skipped as with no rule.)
\<close>

definition getSentimentTagForMarket :: "string \<Rightarrow> string option" where
  "getSentimentTagForMarket mid =
     (case map_of exactMap mid of
        Some t \<Rightarrow> Some t
      | None \<Rightarrow>
          if startsWith mid ''CRYPTO_'' then Some ''CRYPTO''
          else if startsWith mid ''SPORTS_'' then Some ''SPORTS''
          else if startsWith mid ''POLITICS_'' then Some ''POLITICS''
          else None)"

text \<open>
  A query that filters on the status gives each status by its name. The database
  client checks the names against the enum before it sends the query, and throws on a
  name the enum does not have.
\<close>

datatype failure = PrismaClientValidationError string

definition StrategyStatus_values :: "(string \<times> StrategyStatus) list" where
  "StrategyStatus_values =
     [(''ACTIVE'', ACTIVE), (''EXECUTED'', EXECUTED), (''EXPIRED'', EXPIRED)]"

fun status_filter :: "string list \<Rightarrow> failure + StrategyStatus list" where
  "status_filter [] = Inr []"
| "status_filter (name # names) =
     (case map_of StrategyStatus_values name of
        None \<Rightarrow> Inl (PrismaClientValidationError name)
      | Some v \<Rightarrow>
          (case status_filter names of
             Inl f \<Rightarrow> Inl f
           | Inr vs \<Rightarrow> Inr (v # vs)))"

text \<open>
  The query for an existing strategy of the pair: \<open>findFirst\<close> with the status in
  ACTIVE, PENDING.
\<close>

definition existingStrategy :: "world \<Rightarrow> string \<Rightarrow> string \<Rightarrow> failure + Strategy option" where
  "existingStrategy w mid t =
     (case status_filter [''ACTIVE'', ''PENDING''] of
        Inl f \<Rightarrow> Inl f
      | Inr vs \<Rightarrow>
          Inr (find (\<lambda>s. marketId s = mid \<and> sentimentTag s = t \<and> status s \<in> set vs)
                 (strategies w)))"

definition newStrategy :: "env \<Rightarrow> int \<Rightarrow> string \<Rightarrow> string \<Rightarrow> Strategy" where
  "newStrategy e now mid t =
     \<lparr>ownerAddress =
        (case DEFAULT_ADMIN_WALLET e of
           None \<Rightarrow> ''0x_ADMIN_WALLET''
         | Some a \<Rightarrow> if a = [] then ''0x_ADMIN_WALLET'' else a),
      marketId = mid,
      sentimentTag = t,
      minPredictionProb = literal (5 / 100),
      minSentimentScore = literal (15 / 100),
      notionalAmount = 50,
      maxSlippageBps = 100,
      expiryTimestamp = now + 7 * day_ms,
      status = ACTIVE,
      lastExecutedAt = None,
      lastTxHash = None\<rparr>"

definition register_params :: "strategy_id \<Rightarrow> Strategy \<Rightarrow> RegisterParams" where
  "register_params i s =
     \<lparr>g_strategyId = i,
      g_ownerAddress = ownerAddress s,
      g_marketId = marketId s,
      g_sentimentTag = sentimentTag s,
      g_minPredictionProb = Math_round (js_mul (minPredictionProb s) 10000),
      g_minSentimentScore = Math_round (js_mul (minSentimentScore s) 10000),
      g_notionalAmount = Math_round (notionalAmount s),
      g_maxSlippageBps = maxSlippageBps s,
      g_expiryTimestamp = Math_floor (js_div (real_of_int (expiryTimestamp s)) 1000)\<rparr>"

definition create_and_register :: "env \<Rightarrow> string \<Rightarrow> string \<Rightarrow> world \<Rightarrow> world" where
  "create_and_register e mid t w =
     (let i = length (strategies w);
          s = newStrategy e (clock w) mid t;
          w1 = w\<lparr>strategies := strategies w @ [s]\<rparr>;
          params = register_params i s;
          w2 = record_event (RegisterCall params) w1
      in case registerStrategyOnChain e params of
           Registered tx \<Rightarrow> delay 2000 w2
         | RegisterThrew msg \<Rightarrow> w2)"

text \<open>
  How a stretch of code ends: it completes, or it throws and leaves the tables as they
  were at the throw.
\<close>

datatype outcome = Completed world | Failed failure world

fun state_of :: "outcome \<Rightarrow> world" where
  "state_of (Completed w) = w"
| "state_of (Failed f w) = w"

definition discover_market :: "env \<Rightarrow> SentimentSnapshot list \<Rightarrow> MarketSnapshot \<Rightarrow> world \<Rightarrow> outcome" where
  "discover_market e sentiments market w =
     (case getSentimentTagForMarket (m_marketId market) of
        None \<Rightarrow> Completed w
      | Some requiredSentimentTag \<Rightarrow>
          (case find (\<lambda>s. tag s = requiredSentimentTag) sentiments of
             None \<Rightarrow> Completed w
           | Some sentimentData \<Rightarrow>
               (case existingStrategy w (m_marketId market) requiredSentimentTag of
                  Inl f \<Rightarrow> Failed f w
                | Inr (Some existing) \<Rightarrow> Completed w
                | Inr None \<Rightarrow>
                    Completed (create_and_register e (m_marketId market) (tag sentimentData) w))))"

fun discover_loop :: "env \<Rightarrow> SentimentSnapshot list \<Rightarrow> MarketSnapshot list \<Rightarrow> world \<Rightarrow> outcome" where
  "discover_loop e sentiments [] w = Completed w"
| "discover_loop e sentiments (market # rest) w =
     (case discover_market e sentiments market w of
        Completed w' \<Rightarrow> discover_loop e sentiments rest w'
      | Failed f w' \<Rightarrow> Failed f w')"

definition discoverAndCreateStrategies :: "env \<Rightarrow> world \<Rightarrow> outcome" where
  "discoverAndCreateStrategies e w = discover_loop e (recentSentiments w) (recentMarkets w) w"

section \<open>The engine run\<close>

definition expire :: "Strategy \<Rightarrow> Strategy" where
  "expire s = s\<lparr>status := EXPIRED\<rparr>"

text \<open>
  The loop over the strategies loaded at the start of the run. Each row is the copy
  read by \<open>findMany\<close>; the clock is read anew for each strategy.
\<close>

fun engine_loop :: "env \<Rightarrow> (strategy_id \<times> Strategy) list \<Rightarrow> world \<Rightarrow> world" where
  "engine_loop e [] w = w"
| "engine_loop e (row # rest) w =
     (if clock w > expiryTimestamp (snd row)
      then engine_loop e rest (update_strategy (fst row) expire w)
      else engine_loop e rest (delay 3000 (executeStrategy e row w)))"

definition activeStrategies :: "world \<Rightarrow> (strategy_id \<times> Strategy) list" where
  "activeStrategies w = filter (\<lambda>row. status (snd row) = ACTIVE) (strategy_rows w)"

text \<open>
  A run that nothing else interleaves with. Discovery is inside the run's \<open>try\<close>: when
  it throws, the \<open>catch\<close> logs the error and the run ends before the strategies are
  loaded.
\<close>

definition runStrategyExecutionEngine :: "env \<Rightarrow> world \<Rightarrow> world" where
  "runStrategyExecutionEngine e w =
     (case discoverAndCreateStrategies e w of
        Failed f w' \<Rightarrow> w'
      | Completed w1 \<Rightarrow> engine_loop e (activeStrategies w1) w1)"

section \<open>The manual execute request\<close>

text \<open>
  \<open>POST /execute\<close>: the reply code and the world after the request. The request
  names a strategy; it is refused unless that strategy exists and is ACTIVE.
\<close>

definition executeRoute :: "env \<Rightarrow> strategy_id \<Rightarrow> world \<Rightarrow> nat \<times> world" where
  "executeRoute e i w =
     (if \<not> i < length (strategies w) then (404, w)
      else let strategy = strategies w ! i
           in if status strategy \<noteq> ACTIVE then (400, w)
              else let w1 = record_event (SentimentLookup i (sentimentTag strategy))
                              (record_event (MarketLookup i (marketId strategy)) w)
                   in case latestMarketSnapshot w (marketId strategy) of
                        None \<Rightarrow> (400, w1)
                      | Some m \<Rightarrow>
                          (case latestSentimentSnapshot w (sentimentTag strategy) of
                             None \<Rightarrow> (400, w1)
                           | Some s \<Rightarrow>
                               (let params = execute_params i strategy (probability m) (score s);
                                    w2 = record_event (ExecuteCall params) w1
                                in case executeStrategyViaMCP e params of
                                     Threw msg \<Rightarrow> (500, w2)
                                   | Returned executionResult \<Rightarrow>
                                       (200,
                                        create_log i (r_success executionResult)
                                          (r_txHash executionResult) (r_reason executionResult)
                                          (if r_success executionResult
                                           then update_strategy i
                                                  (mark_executed (clock w2) (r_txHash executionResult)) w2
                                           else w2)))))"

section \<open>The backtest simulator\<close>

record ExecutionPoint =
  p_timestamp :: int
  p_probability :: real
  p_sentiment :: real
  wouldExecute :: bool

record Simulation =
  executionPoints :: "ExecutionPoint list"
  totalExecutions :: nat

text \<open>
  \<open>filter\<close>, \<open>sort\<close> by timestamp descending (the sort of an array is stable) and
  element 0: the sentiment snapshot paired with a market snapshot, if there is one.
\<close>

definition closest_before :: "SentimentSnapshot list \<Rightarrow> MarketSnapshot \<Rightarrow> SentimentSnapshot option" where
  "closest_before sentiments marketSnapshot =
     first_of (sort_key (\<lambda>s. - s_timestamp s)
       (filter (\<lambda>s. s_timestamp s \<le> m_timestamp marketSnapshot) sentiments))"

fun simulate_loop ::
  "Strategy \<Rightarrow> SentimentSnapshot list \<Rightarrow> MarketSnapshot list \<Rightarrow> Simulation \<Rightarrow> Simulation" where
  "simulate_loop strategy sentiments [] acc = acc"
| "simulate_loop strategy sentiments (marketSnapshot # rest) acc =
     (case closest_before sentiments marketSnapshot of
        None \<Rightarrow> simulate_loop strategy sentiments rest acc
      | Some sentimentSnapshot \<Rightarrow>
          (let wouldExec =
                 (probability marketSnapshot \<ge> minPredictionProb strategy \<and>
                  score sentimentSnapshot \<ge> minSentimentScore strategy)
           in simulate_loop strategy sentiments rest
                \<lparr>executionPoints = executionPoints acc @
                   [\<lparr>p_timestamp = m_timestamp marketSnapshot,
                     p_probability = probability marketSnapshot,
                     p_sentiment = score sentimentSnapshot,
                     wouldExecute = wouldExec\<rparr>],
                 totalExecutions = (if wouldExec then totalExecutions acc + 1 else totalExecutions acc)\<rparr>))"

definition marketsInRange :: "world \<Rightarrow> string \<Rightarrow> int \<Rightarrow> int \<Rightarrow> MarketSnapshot list" where
  "marketsInRange w mid from to =
     sort_key m_timestamp
       (filter (\<lambda>m. m_marketId m = mid \<and> m_timestamp m \<ge> from \<and> m_timestamp m \<le> to)
         (marketSnapshots w))"

definition sentimentsInRange :: "world \<Rightarrow> string \<Rightarrow> int \<Rightarrow> int \<Rightarrow> SentimentSnapshot list" where
  "sentimentsInRange w t from to =
     sort_key s_timestamp
       (filter (\<lambda>s. tag s = t \<and> s_timestamp s \<ge> from \<and> s_timestamp s \<le> to)
         (sentimentSnapshots w))"

definition simulateStrategyExecution ::
  "world \<Rightarrow> Strategy \<Rightarrow> int option \<Rightarrow> int option \<Rightarrow> Simulation" where
  "simulateStrategyExecution w strategy fromTimestamp toTimestamp =
     (let to = (case toTimestamp of Some t \<Rightarrow> t | None \<Rightarrow> clock w);
          from = (case fromTimestamp of Some t \<Rightarrow> t | None \<Rightarrow> to - 7 * day_ms)
      in simulate_loop strategy
           (sentimentsInRange w (sentimentTag strategy) from to)
           (marketsInRange w (marketId strategy) from to)
           \<lparr>executionPoints = [], totalExecutions = 0\<rparr>)"

section \<open>Schedules\<close>

text \<open>
  The engine runs in a worker process, started by a timer that does not wait for the
  run before; the manual execute request is served by another process. A run suspends
  at every call of the database and of the Settlement Client and for three seconds after
  each strategy it evaluates, and whatever else is ready runs meanwhile. A schedule
  lists what runs in which order. Each action below runs without interruption; the
  source suspends more often, so every schedule here is one the code can follow.

  A run in flight holds its environment and the rows it loaded and has not evaluated
  yet. Time passes by \<open>Elapse\<close> only.
\<close>

record system =
  db :: world
  in_flight :: "(env \<times> (strategy_id \<times> Strategy) list) list"

datatype action =
    Elapse nat
  | FetchMarket MarketSnapshot
  | FetchSentiment SentimentSnapshot
  | StartRun env
  | ResumeRun nat
  | PostExecute env strategy_id

text \<open>One pass of the loop body, up to the delay.\<close>

definition engine_iteration :: "env \<Rightarrow> strategy_id \<times> Strategy \<Rightarrow> world \<Rightarrow> world" where
  "engine_iteration e row w =
     (if clock w > expiryTimestamp (snd row)
      then update_strategy (fst row) expire w
      else executeStrategy e row w)"

fun perform :: "system \<Rightarrow> action \<Rightarrow> system" where
  "perform s (Elapse ms) = s\<lparr>db := delay (int ms) (db s)\<rparr>"
| "perform s (FetchMarket m) = s\<lparr>db := (db s)\<lparr>marketSnapshots := marketSnapshots (db s) @ [m]\<rparr>\<rparr>"
| "perform s (FetchSentiment x) =
     s\<lparr>db := (db s)\<lparr>sentimentSnapshots := sentimentSnapshots (db s) @ [x]\<rparr>\<rparr>"
| "perform s (StartRun e) =
     (case discoverAndCreateStrategies e (db s) of
        Failed f w' \<Rightarrow> s\<lparr>db := w'\<rparr>
      | Completed w1 \<Rightarrow> s\<lparr>db := w1, in_flight := in_flight s @ [(e, activeStrategies w1)]\<rparr>)"
| "perform s (ResumeRun k) =
     (if k < length (in_flight s)
      then (case in_flight s ! k of
              (e, []) \<Rightarrow> s\<lparr>in_flight := take k (in_flight s) @ drop (Suc k) (in_flight s)\<rparr>
            | (e, row # rest) \<Rightarrow>
                s\<lparr>db := engine_iteration e row (db s),
                  in_flight := (in_flight s)[k := (e, rest)]\<rparr>)
      else s)"
| "perform s (PostExecute e i) = s\<lparr>db := snd (executeRoute e i (db s))\<rparr>"

definition run_schedule :: "action list \<Rightarrow> system \<Rightarrow> system" where
  "run_schedule actions s = foldl perform s actions"




text \<open>The strategies of a (market, tag) pair.\<close>

definition strategies_for :: "string \<Rightarrow> string \<Rightarrow> world \<Rightarrow> Strategy list" where
  "strategies_for mid t w = filter (\<lambda>s. marketId s = mid \<and> sentimentTag s = t) (strategies w)"

section \<open>The settlement contract\<close>

text \<open>
  The Move module \<open>sentiment_flow::strategy\<close>. Global storage holds at most one
  \<open>StrategyStore\<close> per address; a store is a table from strategy identifiers to
  strategies. An entry function either aborts with a code, leaving the chain as it
  was, or commits the new state. A signer is modelled by its address.
\<close>

type_synonym address = nat
type_synonym u64 = "64 word"

definition E_STRATEGY_STORE_NOT_FOUND :: u64 where "E_STRATEGY_STORE_NOT_FOUND = 1"
definition E_STRATEGY_ALREADY_EXISTS :: u64 where "E_STRATEGY_ALREADY_EXISTS = 2"
definition E_STRATEGY_NOT_FOUND :: u64 where "E_STRATEGY_NOT_FOUND = 3"
definition E_STRATEGY_ALREADY_EXECUTED :: u64 where "E_STRATEGY_ALREADY_EXECUTED = 4"
definition E_STRATEGY_EXPIRED :: u64 where "E_STRATEGY_EXPIRED = 5"
definition E_CONDITIONS_NOT_MET :: u64 where "E_CONDITIONS_NOT_MET = 8"

record MoveStrategy =
  sid :: string
  market_id :: string
  sentiment_tag :: string
  min_prediction_prob :: u64
  min_sentiment_score :: u64
  notional_amount :: u64
  expiry_timestamp :: u64
  executed :: bool

datatype chain_event =
    StrategyRegistered address string string
  | StrategyExecuted string address u64 u64 u64

record chain =
  stores :: "address \<Rightarrow> (string \<Rightarrow> MoveStrategy option) option"
  emitted :: "chain_event list"

definition register_strategy ::
  "address \<Rightarrow> string \<Rightarrow> string \<Rightarrow> string \<Rightarrow> u64 \<Rightarrow> u64 \<Rightarrow> u64 \<Rightarrow> u64 \<Rightarrow> u64 \<Rightarrow> chain \<Rightarrow> u64 + chain" where
  "register_strategy account strategy_id mid stag min_prob min_sent notional max_slippage_bps expiry c =
     (let owner = account;
          store = (case stores c owner of None \<Rightarrow> Map.empty | Some table \<Rightarrow> table)
      in if store strategy_id \<noteq> None then Inl E_STRATEGY_ALREADY_EXISTS
         else let new_strategy =
                    \<lparr>sid = strategy_id, market_id = mid, sentiment_tag = stag,
                     min_prediction_prob = min_prob, min_sentiment_score = min_sent,
                     notional_amount = notional, expiry_timestamp = expiry, executed = False\<rparr>
              in Inr (c\<lparr>stores := (stores c)(owner \<mapsto> store(strategy_id \<mapsto> new_strategy)),
                        emitted := emitted c @ [StrategyRegistered owner strategy_id mid]\<rparr>))"

definition execute_strategy ::
  "address \<Rightarrow> string \<Rightarrow> string \<Rightarrow> u64 \<Rightarrow> u64 \<Rightarrow> chain \<Rightarrow> u64 + chain" where
  "execute_strategy account strategy_id mid prob_bps sentiment_bps c =
     (let owner = account
      in case stores c owner of
           None \<Rightarrow> Inl E_STRATEGY_STORE_NOT_FOUND
         | Some store \<Rightarrow>
             (case store strategy_id of
                None \<Rightarrow> Inl E_STRATEGY_NOT_FOUND
              | Some strategy \<Rightarrow>
                  if executed strategy then Inl E_STRATEGY_ALREADY_EXECUTED
                  else if \<not> prob_bps \<ge> min_prediction_prob strategy then Inl E_CONDITIONS_NOT_MET
                  else if \<not> sentiment_bps \<ge> min_sentiment_score strategy then Inl E_CONDITIONS_NOT_MET
                  else Inr (c\<lparr>stores := (stores c)(owner \<mapsto> store(strategy_id \<mapsto> strategy\<lparr>executed := True\<rparr>)),
                             emitted := emitted c @
                               [StrategyExecuted strategy_id owner prob_bps sentiment_bps
                                  (notional_amount strategy)]\<rparr>)))"

definition get_strategy_state :: "address \<Rightarrow> string \<Rightarrow> chain \<Rightarrow> bool \<times> u64 \<times> bool" where
  "get_strategy_state owner strategy_id c =
     (case stores c owner of
        None \<Rightarrow> (False, 0, False)
      | Some store \<Rightarrow>
          (case store strategy_id of
             None \<Rightarrow> (False, 0, False)
           | Some s \<Rightarrow> (True, expiry_timestamp s, executed s)))"

text \<open>Transactions calling the module's entry functions, submitted one after another.\<close>

datatype entry_call =
    RegisterStrategy address string string string u64 u64 u64 u64 u64
  | ExecuteStrategy address string string u64 u64

fun run_entry :: "entry_call \<Rightarrow> chain \<Rightarrow> u64 + chain" where
  "run_entry (RegisterStrategy a i m t p s n x ex) c = register_strategy a i m t p s n x ex c"
| "run_entry (ExecuteStrategy a i m p s) c = execute_strategy a i m p s c"

definition submit :: "chain \<Rightarrow> entry_call \<Rightarrow> chain" where
  "submit c call = (case run_entry call c of Inl code \<Rightarrow> c | Inr c' \<Rightarrow> c')"

definition submit_all :: "entry_call list \<Rightarrow> chain \<Rightarrow> chain" where
  "submit_all calls c = foldl submit c calls"

section \<open>Notions the properties are stated with\<close>

text \<open>
  The latest snapshot of a market, and of a tag: a stored snapshot of it that no other
  stored snapshot of it is later than.
\<close>

definition latest_market :: "world \<Rightarrow> string \<Rightarrow> MarketSnapshot \<Rightarrow> bool" where
  "latest_market w mid m =
     (m \<in> set (marketSnapshots w) \<and> m_marketId m = mid \<and>
      (\<forall>m' \<in> set (marketSnapshots w). m_marketId m' = mid \<longrightarrow> m_timestamp m' \<le> m_timestamp m))"

definition latest_sentiment :: "world \<Rightarrow> string \<Rightarrow> SentimentSnapshot \<Rightarrow> bool" where
  "latest_sentiment w t s =
     (s \<in> set (sentimentSnapshots w) \<and> tag s = t \<and>
      (\<forall>s' \<in> set (sentimentSnapshots w). tag s' = t \<longrightarrow> s_timestamp s' \<le> s_timestamp s))"

text \<open>
  The snapshots a backtest of a strategy over a time range is about: those of the
  strategy's market, and of its tag, with a timestamp in the range.
\<close>

definition market_selected :: "Strategy \<Rightarrow> int \<Rightarrow> int \<Rightarrow> MarketSnapshot \<Rightarrow> bool" where
  "market_selected strategy from to m =
     (m_marketId m = marketId strategy \<and> from \<le> m_timestamp m \<and> m_timestamp m \<le> to)"

definition sentiment_selected :: "Strategy \<Rightarrow> int \<Rightarrow> int \<Rightarrow> SentimentSnapshot \<Rightarrow> bool" where
  "sentiment_selected strategy from to s =
     (tag s = sentimentTag strategy \<and> from \<le> s_timestamp s \<and> s_timestamp s \<le> to)"

text \<open>
  The sentiment snapshot nearest before a market snapshot, in the words of the
  specification: one of the given snapshots, not later than the market snapshot, and
  not earlier than any other such snapshot.
\<close>

definition nearest_preceding :: "SentimentSnapshot list \<Rightarrow> MarketSnapshot \<Rightarrow> SentimentSnapshot \<Rightarrow> bool" where
  "nearest_preceding sentiments m s =
     (s \<in> set sentiments \<and> s_timestamp s \<le> m_timestamp m \<and>
      (\<forall>s' \<in> set sentiments. s_timestamp s' \<le> m_timestamp m \<longrightarrow> s_timestamp s' \<le> s_timestamp s))"

definition has_preceding :: "SentimentSnapshot list \<Rightarrow> MarketSnapshot \<Rightarrow> bool" where
  "has_preceding sentiments m = (\<exists>s \<in> set sentiments. s_timestamp s \<le> m_timestamp m)"

text \<open>The result point of a market snapshot paired with a sentiment snapshot.\<close>

definition point_of :: "Strategy \<Rightarrow> MarketSnapshot \<Rightarrow> SentimentSnapshot \<Rightarrow> ExecutionPoint" where
  "point_of strategy m s =
     \<lparr>p_timestamp = m_timestamp m, p_probability = probability m, p_sentiment = score s,
      wouldExecute = (probability m \<ge> minPredictionProb strategy \<and> score s \<ge> minSentimentScore strategy)\<rparr>"

definition points_for :: "Strategy \<Rightarrow> SentimentSnapshot list \<Rightarrow> MarketSnapshot list \<Rightarrow> ExecutionPoint list" where
  "points_for strategy ss ms =
     List.map_filter (\<lambda>m. map_option (point_of strategy m) (closest_before ss m)) ms"

section \<open>Example data\<close>

definition tie_sentiment :: real where
  "tie_sentiment = literal (- 7367 / 10000)"

definition half_strategy :: Strategy where
  "half_strategy =
     \<lparr>ownerAddress = ''0x1'', marketId = ''CRYPTO_BTC'', sentimentTag = ''CRYPTO'',
      minPredictionProb = literal (1 / 2), minSentimentScore = literal 0, notionalAmount = 50,
      maxSlippageBps = 100, expiryTimestamp = 1000000, status = ACTIVE,
      lastExecutedAt = None, lastTxHash = None\<rparr>"

definition signal_world :: world where
  "signal_world =
     \<lparr>strategies = [half_strategy],
      marketSnapshots =
        [\<lparr>m_marketId = ''CRYPTO_BTC'', m_timestamp = 2000, probability = literal (6 / 10)\<rparr>,
         \<lparr>m_marketId = ''CRYPTO_BTC'', m_timestamp = 1000, probability = literal (4 / 10)\<rparr>,
         \<lparr>m_marketId = ''CRYPTO_ETH'', m_timestamp = 2500, probability = literal (1 / 10)\<rparr>],
      sentimentSnapshots =
        [\<lparr>tag = ''SPORTS'', s_timestamp = 2600, score = - 1\<rparr>,
         \<lparr>tag = ''CRYPTO'', s_timestamp = 900, score = literal (1 / 10)\<rparr>],
      executionLogs = [], clock = 3000, trace = []\<rparr>"

definition low_world :: world where
  "low_world =
     signal_world
       \<lparr>marketSnapshots :=
          [\<lparr>m_marketId = ''CRYPTO_BTC'', m_timestamp = 1000, probability = literal (4 / 10)\<rparr>],
        sentimentSnapshots := [\<lparr>tag = ''CRYPTO'', s_timestamp = 900, score = 1\<rparr>]\<rparr>"

definition settling_env :: env where
  "settling_env =
     \<lparr>executeStrategyViaMCP = (\<lambda>params. Returned \<lparr>r_success = True, r_txHash = Some ''0xabc'', r_reason = None\<rparr>),
      registerStrategyOnChain = (\<lambda>params. Registered ''0xdef''),
      DEFAULT_ADMIN_WALLET = None\<rparr>"

definition discovery_world :: world where
  "discovery_world =
     \<lparr>strategies = [],
      marketSnapshots =
        [\<lparr>m_marketId = ''CRYPTO_BTC'', m_timestamp = 1000, probability = 3 / 4\<rparr>],
      sentimentSnapshots =
        [\<lparr>tag = ''CRYPTO'', s_timestamp = 900, score = 1 / 4\<rparr>],
      executionLogs = [], clock = 3000, trace = []\<rparr>"

definition quiet_strategy :: Strategy where
  "quiet_strategy =
     \<lparr>ownerAddress = ''0x1'', marketId = ''CRYPTO_BTC'', sentimentTag = ''CRYPTO'',
      minPredictionProb = 1 / 2, minSentimentScore = 0, notionalAmount = 50,
      maxSlippageBps = 100, expiryTimestamp = 1000000, status = ACTIVE,
      lastExecutedAt = None, lastTxHash = None\<rparr>"

definition expired_world :: world where
  "expired_world =
     \<lparr>strategies = [quiet_strategy],
      marketSnapshots =
        [\<lparr>m_marketId = ''CRYPTO_BTC'', m_timestamp = 1000, probability = 3 / 4\<rparr>],
      sentimentSnapshots =
        [\<lparr>tag = ''CRYPTO'', s_timestamp = 900, score = 1 / 16\<rparr>],
      executionLogs = [], clock = 2000000, trace = []\<rparr>"

definition blocked_world :: world where
  "blocked_world =
     expired_world\<lparr>sentimentSnapshots := [\<lparr>tag = ''CRYPTO'', s_timestamp = 900, score = 1 / 4\<rparr>]\<rparr>"




definition policy_strategy :: "int \<Rightarrow> Strategy" where
  "policy_strategy expiry =
     \<lparr>ownerAddress = ''0x1'', marketId = ''US_POLICY'', sentimentTag = ''POLITICS'',
      minPredictionProb = 1 / 2, minSentimentScore = 0, notionalAmount = 50,
      maxSlippageBps = 100, expiryTimestamp = expiry, status = ACTIVE,
      lastExecutedAt = None, lastTxHash = None\<rparr>"

definition race_system :: system where
  "race_system =
     \<lparr>db =
        \<lparr>strategies = [policy_strategy 5000000, policy_strategy 1000],
         marketSnapshots =
           [\<lparr>m_marketId = ''US_POLICY'', m_timestamp = 2000, probability = 3 / 4\<rparr>],
         sentimentSnapshots =
           [\<lparr>tag = ''POLITICS'', s_timestamp = 1900, score = 1 / 2\<rparr>],
         executionLogs = [], clock = 3000, trace = []\<rparr>,
      in_flight = []\<rparr>"

definition example_strategy :: Strategy where
  "example_strategy =
     \<lparr>ownerAddress = ''0x1'', marketId = ''CRYPTO_BTC'', sentimentTag = ''CRYPTO'',
      minPredictionProb = 1 / 2, minSentimentScore = 0, notionalAmount = 50,
      maxSlippageBps = 100, expiryTimestamp = 1000000, status = ACTIVE,
      lastExecutedAt = None, lastTxHash = None\<rparr>"

definition example_world :: world where
  "example_world =
     \<lparr>strategies = [example_strategy],
      marketSnapshots =
        [\<lparr>m_marketId = ''CRYPTO_BTC'', m_timestamp = 1000, probability = 4 / 10\<rparr>,
         \<lparr>m_marketId = ''CRYPTO_BTC'', m_timestamp = 2000, probability = 6 / 10\<rparr>],
      sentimentSnapshots =
        [\<lparr>tag = ''CRYPTO'', s_timestamp = 900, score = 1 / 10\<rparr>],
      executionLogs = [], clock = 3000, trace = []\<rparr>"

definition example_chain :: chain where
  "example_chain =
     submit \<lparr>stores = (\<lambda>a. None), emitted = []\<rparr>
       (RegisterStrategy 1 ''s1'' ''CRYPTO_BTC'' ''CRYPTO'' 500 1500 50 100 1700000000)"

definition example_calls :: "entry_call list" where
  "example_calls =
     [RegisterStrategy 1 ''s1'' ''CRYPTO_BTC'' ''CRYPTO'' 0 0 50 100 1700000000,
      RegisterStrategy 1 ''s2'' ''CRYPTO_ETH'' ''CRYPTO'' 500 1500 50 100 1700000000,
      ExecuteStrategy 1 ''s2'' ''CRYPTO_ETH'' 7000 6000,
      ExecuteStrategy 1 ''s1'' ''CRYPTO_BTC'' 7000 6000]"

definition backtest_world :: world where
  "backtest_world =
     \<lparr>strategies = [quiet_strategy],
      marketSnapshots =
        [\<lparr>m_marketId = ''CRYPTO_BTC'', m_timestamp = 300, probability = 3 / 8\<rparr>,
         \<lparr>m_marketId = ''CRYPTO_BTC'', m_timestamp = 100, probability = 3 / 4\<rparr>,
         \<lparr>m_marketId = ''CRYPTO_ETH'', m_timestamp = 350, probability = 1\<rparr>,
         \<lparr>m_marketId = ''CRYPTO_BTC'', m_timestamp = 200, probability = 5 / 8\<rparr>,
         \<lparr>m_marketId = ''CRYPTO_BTC'', m_timestamp = 500, probability = 7 / 8\<rparr>,
         \<lparr>m_marketId = ''CRYPTO_BTC'', m_timestamp = 400, probability = 1 / 2\<rparr>,
         \<lparr>m_marketId = ''CRYPTO_BTC'', m_timestamp = 2000, probability = 1\<rparr>],
      sentimentSnapshots =
        [\<lparr>tag = ''CRYPTO'', s_timestamp = 250, score = 1 / 4\<rparr>,
         \<lparr>tag = ''SPORTS'', s_timestamp = 50, score = 1\<rparr>,
         \<lparr>tag = ''CRYPTO'', s_timestamp = 150, score = 1 / 8\<rparr>,
         \<lparr>tag = ''CRYPTO'', s_timestamp = 450, score = - 1 / 4\<rparr>],
      executionLogs = [], clock = 3000, trace = []\<rparr>"

definition early_sentiment_world :: world where
  "early_sentiment_world =
     \<lparr>strategies = [quiet_strategy],
      marketSnapshots =
        [\<lparr>m_marketId = ''CRYPTO_BTC'', m_timestamp = 20, probability = 3 / 4\<rparr>],
      sentimentSnapshots =
        [\<lparr>tag = ''CRYPTO'', s_timestamp = 5, score = 1 / 2\<rparr>],
      executionLogs = [], clock = 3000, trace = []\<rparr>"

section \<open>Rounding to binary64\<close>

lemma pow2_powi: "pow2 e = 2 powi e"
  by (simp add: pow2_def power_int_def inverse_eq_divide power_one_over)

lemma pow2_pos: "0 < pow2 e"
  by (simp add: pow2_def)

lemma pow2_add: "pow2 (a + b) = pow2 a * pow2 b"
  by (simp add: pow2_powi power_int_add)

lemma pow2_nat: "pow2 (int n) = 2 ^ n"
  by (simp add: pow2_def)

lemma pow2_neg_nat: "pow2 (- int n) = 1 / 2 ^ n"
  by (cases "n = 0") (simp_all add: pow2_def)

lemma pow2_mono: "a \<le> b \<Longrightarrow> pow2 a \<le> pow2 b"
  by (simp add: pow2_powi power_int_increasing)

lemma bits_bounds: "0 < n \<Longrightarrow> 2 ^ (bits n - 1) \<le> n \<and> n < 2 ^ bits n"
proof (induction n rule: bits.induct)
  case (1 n)
  show ?case
  proof (cases "n div 2 = 0")
    case True
    with "1.prems" have "n = 1" by (simp add: div_eq_0_iff)
    then show ?thesis by (simp add: bits.simps)
  next
    case False
    then have h: "0 < n div 2" by simp
    from "1.IH" [OF _ h] "1.prems"
    have ih: "2 ^ (bits (n div 2) - 1) \<le> n div 2" "n div 2 < 2 ^ bits (n div 2)" by simp_all
    have pos: "0 < bits (n div 2)" using h by (subst bits.simps) simp
    have b: "bits n = Suc (bits (n div 2))" using "1.prems" by (subst bits.simps) simp
    have "(2::nat) ^ (bits n - 1) = 2 * 2 ^ (bits (n div 2) - 1)"
      using pos b by (cases "bits (n div 2)") simp_all
    also have "\<dots> \<le> 2 * (n div 2)" using ih(1) by simp
    also have "\<dots> \<le> n" by simp
    finally have lo: "2 ^ (bits n - 1) \<le> n" .
    have "n < 2 * (n div 2) + 2" by arith
    also have "\<dots> \<le> 2 * 2 ^ bits (n div 2)" using ih(2) by simp
    finally have hi: "n < 2 ^ bits n" using b by simp
    from lo hi show ?thesis by simp
  qed
qed

lemma binexp_bounds:
  assumes "0 < x"
  shows "pow2 (binexp x) \<le> x \<and> x < pow2 (binexp x + 1)"
proof (cases "1 \<le> x")
  case True
  let ?n = "nat \<lfloor>x\<rfloor>"
  have n: "0 < ?n" using True by simp
  then have bp: "0 < bits ?n" by (subst bits.simps) simp
  from bits_bounds [OF n] have lo: "2 ^ (bits ?n - 1) \<le> ?n" and hi: "?n < 2 ^ bits ?n" by simp_all
  have e: "binexp x = int (bits ?n - 1)" using True bp by (simp add: binexp_def)
  have nx: "real ?n \<le> x" using True by simp
  have xn: "x < real ?n + 1" using True by simp
  have "pow2 (binexp x) = 2 ^ (bits ?n - 1)" by (simp add: e pow2_nat)
  also have "\<dots> = real (2 ^ (bits ?n - 1))" by simp
  also have "\<dots> \<le> real ?n" using lo by (simp only: of_nat_le_iff)
  finally have a: "pow2 (binexp x) \<le> x" using nx by simp
  have "binexp x + 1 = int (bits ?n)" using e bp by simp
  then have "pow2 (binexp x + 1) = real (2 ^ bits ?n)" by (simp add: pow2_nat)
  moreover have "real ?n + 1 \<le> real (2 ^ bits ?n)" using hi
    by (metis Suc_leI of_nat_Suc of_nat_le_iff add.commute)
  ultimately have b: "x < pow2 (binexp x + 1)" using xn by simp
  from a b show ?thesis by simp
next
  case False
  then have x1: "x < 1" by simp
  let ?y = "1 / x"
  let ?c = "\<lceil>?y\<rceil>"
  let ?n = "nat (?c - 1)"
  have y1: "1 < ?y" using assms x1 by simp
  then have c2: "2 \<le> ?c" by (simp add: le_ceiling_iff)
  then have n: "0 < ?n" by simp
  from bits_bounds [OF n] have lo: "2 ^ (bits ?n - 1) \<le> ?n" and hi: "?n < 2 ^ bits ?n" by simp_all
  have bp: "0 < bits ?n" using n by (subst bits.simps) simp
  have e: "binexp x = - int (bits ?n)" using False by (simp add: binexp_def)
  have nn: "0 \<le> ?c - 1" using c2 by linarith
  have "real ?n = real_of_int (int ?n)" by (simp only: of_int_of_nat_eq)
  also have "int ?n = ?c - 1" using nn by (simp only: int_nat_eq if_True)
  finally have cn: "real_of_int ?c = real ?n + 1" by simp
  have yc: "?y \<le> real_of_int ?c" by (rule le_of_int_ceiling)
  have cy: "real_of_int ?c - 1 < ?y" by linarith
  have "real (Suc ?n) \<le> real (2 ^ bits ?n)" using hi by (simp only: of_nat_le_iff Suc_le_eq)
  then have "real ?n + 1 \<le> 2 ^ bits ?n" by simp
  with yc cn have yhi: "?y \<le> 2 ^ bits ?n" by linarith
  have "real (2 ^ (bits ?n - 1)) \<le> real ?n" using lo by (simp only: of_nat_le_iff)
  then have "(2::real) ^ (bits ?n - 1) \<le> real ?n" by simp
  with cy cn have ylo: "2 ^ (bits ?n - 1) < ?y" by linarith
  have a: "pow2 (binexp x) \<le> x"
  proof -
    have eq: "pow2 (binexp x) = 1 / 2 ^ bits ?n" by (simp add: e pow2_neg_nat)
    from yhi assms have "1 \<le> x * 2 ^ bits ?n" by (simp add: pos_divide_le_eq mult.commute)
    then have "1 / 2 ^ bits ?n \<le> x" by (simp add: pos_divide_le_eq)
    then show ?thesis by (simp only: eq)
  qed
  have b: "x < pow2 (binexp x + 1)"
  proof -
    have "binexp x + 1 = - int (bits ?n - 1)" using e bp by simp
    then have eq: "pow2 (binexp x + 1) = 1 / 2 ^ (bits ?n - 1)" by (simp only: pow2_neg_nat)
    from ylo assms have "x * 2 ^ (bits ?n - 1) < 1" by (simp add: pos_less_divide_eq mult.commute)
    then have "x < 1 / 2 ^ (bits ?n - 1)" by (simp add: pos_less_divide_eq)
    then show ?thesis by (simp only: eq)
  qed
  from a b show ?thesis by simp
qed

lemma round_even_close: "\<bar>real_of_int (round_even y) - y\<bar> \<le> 1 / 2"
  unfolding round_even_def Let_def by (auto simp: abs_le_iff)

lemma rd_quantum:
  assumes "x \<noteq> 0"
  shows "\<bar>rd x - x\<bar> \<le> pow2 (max (binexp \<bar>x\<bar>) (- 1022) - 53)"
proof -
  let ?e = "max (binexp \<bar>x\<bar>) (- 1022)"
  let ?q = "pow2 (?e - 52)"
  have q: "0 < ?q" by (rule pow2_pos)
  have "rd x - x = (real_of_int (round_even (x / ?q)) - x / ?q) * ?q"
    using assms q by (simp add: rd_def Let_def field_simps)
  then have "\<bar>rd x - x\<bar> = \<bar>real_of_int (round_even (x / ?q)) - x / ?q\<bar> * ?q"
    using q by (simp add: abs_mult)
  also have "\<dots> \<le> 1 / 2 * ?q"
    using round_even_close [of "x / ?q"] q by (intro mult_right_mono) simp_all
  also have "\<dots> = pow2 (?e - 53)"
  proof -
    have "pow2 (?e - 52) = pow2 ((?e - 53) + 1)" by simp
    also have "\<dots> = pow2 (?e - 53) * 2" by (simp only: pow2_add) (simp add: pow2_def)
    finally show ?thesis by simp
  qed
  finally show ?thesis .
qed

lemma rd_error:
  assumes b: "\<bar>x\<bar> \<le> b" and big: "pow2 (- 1022) \<le> b"
  shows "\<bar>rd x - x\<bar> \<le> b * unit_roundoff"
proof (cases "x = 0")
  case True
  with b show ?thesis by (simp add: rd_def unit_roundoff_def)
next
  case False
  then have pos: "0 < \<bar>x\<bar>" by simp
  have u: "unit_roundoff = pow2 (- 53)" by (simp add: unit_roundoff_def pow2_def)
  have u0: "0 \<le> unit_roundoff" by (simp add: unit_roundoff_def)
  show ?thesis
  proof (cases "- 1022 \<le> binexp \<bar>x\<bar>")
    case True
    then have "max (binexp \<bar>x\<bar>) (- 1022) - 53 = binexp \<bar>x\<bar> + (- 53)" by simp
    then have "pow2 (max (binexp \<bar>x\<bar>) (- 1022) - 53) = pow2 (binexp \<bar>x\<bar>) * unit_roundoff"
      by (simp only: pow2_add u)
    also have "\<dots> \<le> \<bar>x\<bar> * unit_roundoff"
      using binexp_bounds [OF pos] u0 by (intro mult_right_mono) simp_all
    also have "\<dots> \<le> b * unit_roundoff" using b u0 by (intro mult_right_mono) simp_all
    finally show ?thesis using rd_quantum [OF False] by linarith
  next
    case False
    then have "max (binexp \<bar>x\<bar>) (- 1022) - 53 = (- 1022) + (- 53)" by simp
    then have "pow2 (max (binexp \<bar>x\<bar>) (- 1022) - 53) = pow2 (- 1022) * unit_roundoff"
      by (simp only: pow2_add u)
    also have "\<dots> \<le> b * unit_roundoff" using big u0 by (intro mult_right_mono) simp_all
    finally show ?thesis using rd_quantum [OF \<open>x \<noteq> 0\<close>] by linarith
  qed
qed

lemma pow2_tiny: "pow2 (- 1022) \<le> 1"
  using pow2_mono [of "- 1022" 0] by (simp add: pow2_def)

lemma unit_roundoff_small: "0 < unit_roundoff" "unit_roundoff \<le> 1 / 1000000"
  by (simp_all add: unit_roundoff_def)

section \<open>Round trips of the conversions\<close>

lemma Math_round_close: "\<bar>real_of_int (Math_round x) - x\<bar> \<le> 1 / 2"
  unfolding Math_round_def by linarith

lemma prob_round_trip:
  assumes p: "0 \<le> p" "p \<le> 1"
  shows "\<bar>bpsToProb (probToBps p) - p\<bar> \<le> 1 / 10000"
proof -
  let ?x = "rd (p * 10000)"
  let ?n = "real_of_int (Math_round ?x)"
  have "\<bar>p * 10000\<bar> \<le> 10000" using p by (simp add: abs_if)
  from rd_error [OF this] pow2_tiny have x: "\<bar>?x - p * 10000\<bar> \<le> 10000 * unit_roundoff" by simp
  have n: "\<bar>?n - ?x\<bar> \<le> 1 / 2" by (rule Math_round_close)
  from x n unit_roundoff_small p have "\<bar>?n / 10000\<bar> \<le> 2" by linarith
  from rd_error [OF this] pow2_tiny
  have y: "\<bar>rd (?n / 10000) - ?n / 10000\<bar> \<le> 2 * unit_roundoff" by simp
  from x n y unit_roundoff_small have "\<bar>rd (?n / 10000) - p\<bar> \<le> 1 / 10000" by linarith
  then show ?thesis by (simp add: bpsToProb_def probToBps_def js_mul_def js_div_def)
qed

lemma sentiment_round_trip:
  assumes s: "-1 \<le> s" "s \<le> 1"
  shows "\<bar>bpsToSentiment (sentimentToBps s) - s\<bar> \<le> 1 / 10000 + 11 * unit_roundoff"
proof -
  let ?a = "rd (s + 1)"
  let ?x = "rd (?a * 5000)"
  let ?n = "real_of_int (Math_round ?x)"
  let ?q = "rd (?n / 5000)"
  have "\<bar>s + 1\<bar> \<le> 2" using s by linarith
  from rd_error [OF this] pow2_tiny have a: "\<bar>?a - (s + 1)\<bar> \<le> 2 * unit_roundoff" by simp
  from a s unit_roundoff_small have "\<bar>?a * 5000\<bar> \<le> 15000" by linarith
  from rd_error [OF this] pow2_tiny have x: "\<bar>?x - ?a * 5000\<bar> \<le> 15000 * unit_roundoff" by simp
  have n: "\<bar>?n - ?x\<bar> \<le> 1 / 2" by (rule Math_round_close)
  from a x n s unit_roundoff_small have "\<bar>?n / 5000\<bar> \<le> 3" by linarith
  from rd_error [OF this] pow2_tiny have q: "\<bar>?q - ?n / 5000\<bar> \<le> 3 * unit_roundoff" by simp
  from a x n q s unit_roundoff_small have "\<bar>?q - 1\<bar> \<le> 3" by linarith
  from rd_error [OF this] pow2_tiny have r: "\<bar>rd (?q - 1) - (?q - 1)\<bar> \<le> 3 * unit_roundoff" by simp
  from a x n q r unit_roundoff_small
  have "\<bar>rd (?q - 1) - s\<bar> \<le> 1 / 10000 + 11 * unit_roundoff" by linarith
  then show ?thesis
    by (simp add: bpsToSentiment_def sentimentToBps_def js_mul_def js_div_def js_add_def js_sub_def)
qed

lemmas binary64 = rd_def binexp_def round_even_def pow2_def Let_def bits.simps

lemma tie_sentiment_value: "tie_sentiment = - 6635603690967689 / 9007199254740992"
  by (simp add: tie_sentiment_def literal_def binary64)

lemma tie_sentiment_bps: "sentimentToBps tie_sentiment = 1317"
  by (simp add: sentimentToBps_def js_mul_def js_add_def tie_sentiment_value Math_round_def
        binary64)

lemma tie_sentiment_back: "bpsToSentiment 1317 = - 3317351485521107 / 4503599627370496"
  by (simp add: bpsToSentiment_def js_div_def js_sub_def binary64)

text \<open>
  Claim C9, as stated, at the double the literal \<open>-0.7367\<close> denotes: adding 1 and
  multiplying by 5000 gives the tie 1316.5 in double arithmetic, which rounds up to
  1317, and the way back ends more than 1/10000 from the sentiment.
\<close>

theorem sentiment_round_trip_counterexample:
  "- 1 \<le> tie_sentiment \<and> tie_sentiment \<le> 1 \<and> rd tie_sentiment = tie_sentiment
   \<and> sentimentToBps tie_sentiment = 1317
   \<and> \<not> \<bar>bpsToSentiment (sentimentToBps tie_sentiment) - tie_sentiment\<bar> \<le> 1 / 10000"
  by (simp add: tie_sentiment_bps tie_sentiment_back)
     (simp add: tie_sentiment_value binary64)

text \<open>
  Claim C9, amended. For every probability in [0,1], converting to basis points and back
  gives the value again up to 1/10000; for every sentiment in [-1,1], up to 1/10000 plus
  eleven units of roundoff of double arithmetic.
\<close>

theorem conversion_round_trips_doubles:
  assumes "0 \<le> p" "p \<le> 1" "-1 \<le> s" "s \<le> 1"
  shows "\<bar>bpsToProb (probToBps p) - p\<bar> \<le> 1 / 10000
       \<and> \<bar>bpsToSentiment (sentimentToBps s) - s\<bar> \<le> 1 / 10000 + 11 * unit_roundoff"
  using assms prob_round_trip [of p] sentiment_round_trip [of s] by blast

theorem conversion_round_trips_doubles_witness:
  "(0::real) \<le> 3 / 8 \<and> (3 / 8 :: real) \<le> 1 \<and> - 1 \<le> tie_sentiment \<and> tie_sentiment \<le> 1
   \<and> \<bar>bpsToProb (probToBps (3 / 8)) - 3 / 8\<bar> \<le> 1 / 10000
   \<and> \<bar>bpsToSentiment (sentimentToBps tie_sentiment) - tie_sentiment\<bar>
        \<le> 1 / 10000 + 11 * unit_roundoff"
proof -
  have a: "- 1 \<le> tie_sentiment" and b: "tie_sentiment \<le> 1"
    by (simp_all add: tie_sentiment_value)
  from conversion_round_trips_doubles [of "3 / 8" tie_sentiment] a b show ?thesis by simp
qed



section \<open>The firing rule\<close>

lemma first_of_None: "first_of xs = None \<longleftrightarrow> xs = []"
  by (cases xs) (simp_all add: first_of_def)

lemma sort_key_Nil: "sort_key f xs = [] \<longleftrightarrow> xs = []"
proof
  assume "sort_key f xs = []"
  then have "set (sort_key f xs) = {}" by simp
  then show "xs = []" by simp
qed simp

lemma first_of_sorted_least:
  assumes "first_of (sort_key f xs) = Some x"
  shows "x \<in> set xs \<and> (\<forall>y \<in> set xs. f x \<le> f y)"
proof -
  from assms obtain rest where e: "sort_key f xs = x # rest"
    by (cases "sort_key f xs") (simp_all add: first_of_def)
  have "set (sort_key f xs) = set xs" by simp
  with e have m: "x \<in> set xs" "set xs = insert x (set rest)" by auto
  have "sorted (map f (sort_key f xs))" by (rule sorted_sort_key)
  with e have "\<forall>y \<in> set rest. f x \<le> f y" by simp
  with m show ?thesis by auto
qed

lemma first_of_sorted_Some:
  assumes "xs \<noteq> []"
  shows "\<exists>x. first_of (sort_key f xs) = Some x"
proof -
  from assms have "sort_key f xs \<noteq> []" by (simp add: sort_key_Nil)
  then show ?thesis by (cases "sort_key f xs") (simp_all add: first_of_def)
qed

lemma latestMarketSnapshot_None:
  "latestMarketSnapshot w mid = None \<longleftrightarrow> (\<forall>m \<in> set (marketSnapshots w). m_marketId m \<noteq> mid)"
  by (auto simp: latestMarketSnapshot_def first_of_None sort_key_Nil filter_empty_conv)

lemma latestSentimentSnapshot_None:
  "latestSentimentSnapshot w t = None \<longleftrightarrow> (\<forall>s \<in> set (sentimentSnapshots w). tag s \<noteq> t)"
  by (auto simp: latestSentimentSnapshot_def first_of_None sort_key_Nil filter_empty_conv)

lemma latestMarketSnapshot_latest:
  assumes "latestMarketSnapshot w mid = Some m"
  shows "latest_market w mid m"
  using first_of_sorted_least [OF assms [unfolded latestMarketSnapshot_def]]
  by (auto simp: latest_market_def)

lemma latestSentimentSnapshot_latest:
  assumes "latestSentimentSnapshot w t = Some s"
  shows "latest_sentiment w t s"
  using first_of_sorted_least [OF assms [unfolded latestSentimentSnapshot_def]]
  by (auto simp: latest_sentiment_def)

lemma literal_values:
  "literal (1 / 2) = 1 / 2" "literal 0 = 0"
  "1 / 2 \<le> literal (6 / 10)" "0 \<le> literal (1 / 10)" "literal (4 / 10) < 1 / 2"
  by (simp_all add: literal_def binary64)

text \<open>
  Claim C1. When a market snapshot of the strategy's market and a sentiment snapshot of
  its tag exist, the engine decides on a latest snapshot of each, and decides to fire
  exactly when the probability of that market snapshot is at least the strategy's
  minimum probability and the score of that sentiment snapshot is at least its minimum
  score. With thresholds 0.5 and 0.0, a latest probability 0.6 and a latest sentiment
  0.1 fire; a latest probability 0.4 does not fire, whatever the sentiment.
\<close>

theorem firing_eligibility:
  assumes "\<exists>m \<in> set (marketSnapshots w). m_marketId m = marketId strategy"
      and "\<exists>s \<in> set (sentimentSnapshots w). tag s = sentimentTag strategy"
  shows "(\<exists>m s. latest_market w (marketId strategy) m
             \<and> latest_sentiment w (sentimentTag strategy) s
             \<and> (shouldExecute (shouldExecuteStrategy w strategy) \<longleftrightarrow>
                  probability m \<ge> minPredictionProb strategy
                  \<and> score s \<ge> minSentimentScore strategy))
       \<and> (minPredictionProb strategy = literal (1 / 2) \<and> minSentimentScore strategy = literal 0
            \<and> (\<forall>m. latest_market w (marketId strategy) m \<longrightarrow> probability m = literal (6 / 10))
            \<and> (\<forall>s. latest_sentiment w (sentimentTag strategy) s \<longrightarrow> score s = literal (1 / 10))
            \<longrightarrow> shouldExecute (shouldExecuteStrategy w strategy))
       \<and> (minPredictionProb strategy = literal (1 / 2)
            \<and> (\<forall>m. latest_market w (marketId strategy) m \<longrightarrow> probability m = literal (4 / 10))
            \<longrightarrow> \<not> shouldExecute (shouldExecuteStrategy w strategy))"
proof -
  from assms(1) obtain m where m: "latestMarketSnapshot w (marketId strategy) = Some m"
    using latestMarketSnapshot_None [of w "marketId strategy"] by (cases "latestMarketSnapshot w (marketId strategy)") auto
  from assms(2) obtain s where s: "latestSentimentSnapshot w (sentimentTag strategy) = Some s"
    using latestSentimentSnapshot_None [of w "sentimentTag strategy"] by (cases "latestSentimentSnapshot w (sentimentTag strategy)") auto
  have lm: "latest_market w (marketId strategy) m" using m by (rule latestMarketSnapshot_latest)
  have ls: "latest_sentiment w (sentimentTag strategy) s" using s by (rule latestSentimentSnapshot_latest)
  have d: "shouldExecute (shouldExecuteStrategy w strategy) \<longleftrightarrow>
             probability m \<ge> minPredictionProb strategy \<and> score s \<ge> minSentimentScore strategy"
    using m s by (simp add: shouldExecuteStrategy_def decide_def Let_def)
  from lm ls d have first: "\<exists>m s. latest_market w (marketId strategy) m
             \<and> latest_sentiment w (sentimentTag strategy) s
             \<and> (shouldExecute (shouldExecuteStrategy w strategy) \<longleftrightarrow>
                  probability m \<ge> minPredictionProb strategy
                  \<and> score s \<ge> minSentimentScore strategy)" by blast
  from lm ls d literal_values show ?thesis
    apply (intro conjI)
      apply (rule first)
     apply (auto simp: literal_values)
    done
qed

theorem firing_eligibility_witness:
  "shouldExecute (shouldExecuteStrategy signal_world half_strategy)
   \<and> \<not> shouldExecute (shouldExecuteStrategy low_world half_strategy)"
proof -
  have m: "\<exists>m \<in> set (marketSnapshots signal_world). m_marketId m = marketId half_strategy"
    and s: "\<exists>s \<in> set (sentimentSnapshots signal_world). tag s = sentimentTag half_strategy"
    and m': "\<exists>m \<in> set (marketSnapshots low_world). m_marketId m = marketId half_strategy"
    and s': "\<exists>s \<in> set (sentimentSnapshots low_world). tag s = sentimentTag half_strategy"
    by (simp_all add: signal_world_def low_world_def half_strategy_def)
  have t: "minPredictionProb half_strategy = literal (1 / 2)"
    "minSentimentScore half_strategy = literal 0"
    by (simp_all add: half_strategy_def)
  have p6: "\<forall>m. latest_market signal_world (marketId half_strategy) m \<longrightarrow> probability m = literal (6 / 10)"
    by (auto simp: latest_market_def signal_world_def half_strategy_def)
  have s1: "\<forall>s. latest_sentiment signal_world (sentimentTag half_strategy) s \<longrightarrow> score s = literal (1 / 10)"
    by (auto simp: latest_sentiment_def signal_world_def half_strategy_def)
  have p4: "\<forall>m. latest_market low_world (marketId half_strategy) m \<longrightarrow> probability m = literal (4 / 10)"
    by (auto simp: latest_market_def low_world_def signal_world_def half_strategy_def)
  from firing_eligibility [OF m s] t p6 s1
  have a: "shouldExecute (shouldExecuteStrategy signal_world half_strategy)" by blast
  from firing_eligibility [OF m' s'] t p4
  have b: "\<not> shouldExecute (shouldExecuteStrategy low_world half_strategy)" by blast
  from a b show ?thesis by blast
qed

section \<open>What one evaluation touches\<close>

lemmas world_ops = update_strategy_def create_log_def record_event_def delay_def

lemma executeStrategy_length:
  "length (strategies (executeStrategy e row w)) = length (strategies w)"
  by (simp add: executeStrategy_def settle_def Let_def world_ops split: execute_outcome.splits)














section \<open>Discovery creates nothing\<close>

lemma existingStrategy_rejected:
  "existingStrategy w mid t = Inl (PrismaClientValidationError ''PENDING'')"
  by (simp add: existingStrategy_def StrategyStatus_values_def)

lemma discover_market_state: "state_of (discover_market e ss m w) = w"
  by (simp add: discover_market_def existingStrategy_rejected split: option.splits)

lemma discover_loop_state: "state_of (discover_loop e ss ms w) = w"
proof (induction ms)
  case Nil
  show ?case by simp
next
  case (Cons m ms)
  have "state_of (discover_market e ss m w) = w" by (rule discover_market_state)
  then show ?case using Cons by (cases "discover_market e ss m w") simp_all
qed

lemma discovery_state: "state_of (discoverAndCreateStrategies e w) = w"
  by (simp add: discoverAndCreateStrategies_def discover_loop_state)


lemma run_ends_when_discovery_throws:
  assumes "discoverAndCreateStrategies e w = Failed f w'"
  shows "runStrategyExecutionEngine e w = w"
  using discovery_state [of e w] assms by (simp add: runStrategyExecutionEngine_def)

lemma literal_tenth: "literal (1 / 10) = 3602879701896397 / 36028797018963968"
  by (simp add: literal_def binary64)

lemmas discovery_defs = discoverAndCreateStrategies_def recentSentiments_def recentMarkets_def
  day_ms_def discover_market_def getSentimentTagForMarket_def exactMap_def startsWith_def
  existingStrategy_rejected literal_tenth

text \<open>
  With a market that has a rule and a fresh sentiment score above 0.1 for its tag,
  Discovery throws at its query for an existing strategy; the run then ends with every
  strategy as it was, an ACTIVE strategy past its expiry included.
\<close>

lemma discovery_throws_example:
  "discoverAndCreateStrategies settling_env discovery_world =
     Failed (PrismaClientValidationError ''PENDING'') discovery_world"
  by (simp add: discovery_defs discovery_world_def)

lemma blocked_run_example:
  "discoverAndCreateStrategies settling_env blocked_world =
     Failed (PrismaClientValidationError ''PENDING'') blocked_world
   \<and> runStrategyExecutionEngine settling_env blocked_world = blocked_world
   \<and> map status (strategies blocked_world) = [ACTIVE]
   \<and> map expiryTimestamp (strategies blocked_world) = [1000000]
   \<and> clock blocked_world = 2000000"
proof -
  have d: "discoverAndCreateStrategies settling_env blocked_world =
     Failed (PrismaClientValidationError ''PENDING'') blocked_world"
    by (simp add: discovery_defs blocked_world_def expired_world_def)
  from d run_ends_when_discovery_throws [OF d] show ?thesis
    by (simp add: blocked_world_def expired_world_def quiet_strategy_def)
qed

text \<open>
  Claim C4. Discovery adds no strategy for a (market, tag) pair that already has a
  strategy which is ACTIVE or pending registration: it adds no strategy for any pair,
  since its query for an existing strategy is rejected before a strategy is created.
  Hence two discovery runs in succession, whatever time passes between them, add at
  most one strategy for a pair.
\<close>

theorem discovery_creates_no_duplicate:
  "strategies_for mid t (state_of (discoverAndCreateStrategies e w)) = strategies_for mid t w
   \<and> length (strategies_for mid t
        (state_of (discoverAndCreateStrategies e'
           (delay ms (state_of (discoverAndCreateStrategies e w))))))
     \<le> length (strategies_for mid t w) + 1"
  by (simp add: discovery_state strategies_for_def delay_def)

theorem discovery_creates_no_duplicate_witness:
  "strategies_for ''CRYPTO_BTC'' ''CRYPTO''
      (state_of (discoverAndCreateStrategies settling_env blocked_world)) = [quiet_strategy]
   \<and> strategies_for ''CRYPTO_BTC'' ''CRYPTO'' blocked_world = [quiet_strategy]
   \<and> length (strategies_for ''CRYPTO_BTC'' ''CRYPTO''
        (state_of (discoverAndCreateStrategies settling_env
           (delay 60000 (state_of (discoverAndCreateStrategies settling_env discovery_world))))))
      \<le> length (strategies_for ''CRYPTO_BTC'' ''CRYPTO'' discovery_world) + 1"
proof -
  have b: "strategies_for ''CRYPTO_BTC'' ''CRYPTO'' blocked_world = [quiet_strategy]"
    by (simp add: strategies_for_def blocked_world_def expired_world_def quiet_strategy_def)
  from discovery_creates_no_duplicate [of "''CRYPTO_BTC''" "''CRYPTO''" settling_env blocked_world]
    discovery_creates_no_duplicate [of "''CRYPTO_BTC''" "''CRYPTO''" settling_env discovery_world
      settling_env 60000]
    b
  show ?thesis by simp
qed

section \<open>Expiry\<close>



section \<open>What is sent to the Settlement Client\<close>



section \<open>Statuses under a schedule\<close>

lemma executeStrategy_status:
  "status (strategies (executeStrategy e row w) ! i) = status (strategies w ! i)
   \<or> status (strategies (executeStrategy e row w) ! i) = EXECUTED"
  by (simp add: executeStrategy_def settle_def Let_def world_ops mark_executed_def nth_list_update
        split: execute_outcome.splits)

lemma engine_iteration_length:
  "length (strategies (engine_iteration e row w)) = length (strategies w)"
  by (simp add: engine_iteration_def executeStrategy_length world_ops)

lemma engine_iteration_status:
  "status (strategies (engine_iteration e row w) ! i) = status (strategies w ! i)
   \<or> status (strategies (engine_iteration e row w) ! i) \<noteq> ACTIVE"
  using executeStrategy_status [of e row w i]
  by (auto simp: engine_iteration_def world_ops expire_def nth_list_update)

lemma executeRoute_length:
  "length (strategies (snd (executeRoute e j w))) = length (strategies w)"
  by (simp add: executeRoute_def Let_def world_ops split: option.splits execute_outcome.splits)

lemma executeRoute_status:
  "status (strategies (snd (executeRoute e j w)) ! i) = status (strategies w ! i)
   \<or> status (strategies (snd (executeRoute e j w)) ! i) = EXECUTED"
  by (simp add: executeRoute_def Let_def world_ops mark_executed_def nth_list_update
        split: option.splits execute_outcome.splits)

lemma perform_keeps_settled:
  assumes "i < length (strategies (db s))" and "status (strategies (db s) ! i) \<noteq> ACTIVE"
  shows "i < length (strategies (db (perform s a)))
       \<and> status (strategies (db (perform s a)) ! i) \<noteq> ACTIVE"
proof (cases a)
  case (Elapse ms)
  with assms show ?thesis by (simp add: delay_def)
next
  case (FetchMarket m)
  with assms show ?thesis by simp
next
  case (FetchSentiment x)
  with assms show ?thesis by simp
next
  case (StartRun e)
  have "state_of (discoverAndCreateStrategies e (db s)) = db s" by (rule discovery_state)
  with StartRun assms show ?thesis
    by (cases "discoverAndCreateStrategies e (db s)") simp_all
next
  case (ResumeRun k)
  show ?thesis
  proof (cases "k < length (in_flight s)")
    case False
    with ResumeRun assms show ?thesis by simp
  next
    case True
    obtain e rows where r: "in_flight s ! k = (e, rows)" by (cases "in_flight s ! k")
    show ?thesis
    proof (cases rows)
      case Nil
      with ResumeRun True r assms show ?thesis by simp
    next
      case (Cons row rest)
      with ResumeRun True r assms engine_iteration_status [of e row "db s" i]
      show ?thesis by (auto simp: engine_iteration_length)
    qed
  qed
next
  case (PostExecute e j)
  with assms executeRoute_status [of e j "db s" i] show ?thesis
    by (auto simp: executeRoute_length)
qed

text \<open>Under every schedule a strategy that has left ACTIVE never returns to it.\<close>

lemma never_active_again:
  assumes "i < length (strategies (db s))" and "status (strategies (db s) ! i) \<noteq> ACTIVE"
  shows "i < length (strategies (db (run_schedule actions s)))
       \<and> status (strategies (db (run_schedule actions s)) ! i) \<noteq> ACTIVE"
  using assms
proof (induction actions arbitrary: s)
  case Nil
  then show ?case by (simp add: run_schedule_def)
next
  case (Cons a actions)
  from perform_keeps_settled [OF Cons.prems, of a]
  have "i < length (strategies (db (perform s a)))"
    and "status (strategies (db (perform s a)) ! i) \<noteq> ACTIVE" by simp_all
  from Cons.IH [OF this] show ?case by (simp add: run_schedule_def)
qed

lemmas schedule_defs = run_schedule_def race_system_def policy_strategy_def settling_env_def
  discovery_defs activeStrategies_def strategy_rows_def engine_iteration_def executeStrategy_def
  settle_def shouldExecuteStrategy_def decide_def latestMarketSnapshot_def
  latestSentimentSnapshot_def first_of_def execute_params_def executeRoute_def world_ops
  mark_executed_def expire_def Let_def

text \<open>
  Claim C2. An engine run loads two ACTIVE strategies, the second one past its expiry.
  While the run waits after the first, a manual execute request for the second
  succeeds and sets it EXECUTED, with a successful log entry. The run then evaluates
  its stale copy of the second strategy and sets it EXPIRED.
\<close>

theorem stale_expiry_overwrites_executed:
  "map status (strategies (db (run_schedule [StartRun settling_env, ResumeRun 0] race_system)))
     = [EXECUTED, ACTIVE]
   \<and> map status (strategies (db (run_schedule
        [StartRun settling_env, ResumeRun 0, PostExecute settling_env 1] race_system)))
     = [EXECUTED, EXECUTED]
   \<and> map (\<lambda>l. (strategyId l, success l)) (executionLogs (db (run_schedule
        [StartRun settling_env, ResumeRun 0, PostExecute settling_env 1] race_system)))
     = [(0, True), (1, True)]
   \<and> map status (strategies (db (run_schedule
        [StartRun settling_env, ResumeRun 0, PostExecute settling_env 1, ResumeRun 0] race_system)))
     = [EXECUTED, EXPIRED]"
  by (simp add: schedule_defs)

section \<open>Settlement failure\<close>






section \<open>The backtest\<close>

lemma closest_before_None: "closest_before ss m = None \<longleftrightarrow> \<not> has_preceding ss m"
  by (auto simp: closest_before_def has_preceding_def first_of_None sort_key_Nil filter_empty_conv)

lemma closest_before_Some:
  assumes "closest_before ss m = Some s"
  shows "nearest_preceding ss m s"
  using first_of_sorted_least [OF assms [unfolded closest_before_def]]
  by (auto simp: nearest_preceding_def)

lemma points_for_Nil: "points_for strategy ss [] = []"
  by (simp add: points_for_def)

lemma points_for_skip:
  "closest_before ss m = None \<Longrightarrow> points_for strategy ss (m # ms) = points_for strategy ss ms"
  by (simp add: points_for_def)

lemma points_for_point:
  "closest_before ss m = Some s \<Longrightarrow>
   points_for strategy ss (m # ms) = point_of strategy m s # points_for strategy ss ms"
  by (simp add: points_for_def)

lemma simulate_loop_points:
  "executionPoints (simulate_loop strategy ss ms acc) = executionPoints acc @ points_for strategy ss ms"
proof (induction ms arbitrary: acc)
  case Nil
  show ?case by (simp add: points_for_Nil)
next
  case (Cons m ms)
  show ?case
  proof (cases "closest_before ss m")
    case None
    then show ?thesis by (simp add: Cons points_for_skip)
  next
    case (Some s)
    then show ?thesis by (simp add: Cons points_for_point point_of_def Let_def)
  qed
qed

lemma simulate_loop_total:
  "totalExecutions (simulate_loop strategy ss ms acc) =
     totalExecutions acc + length (filter wouldExecute (points_for strategy ss ms))"
proof (induction ms arbitrary: acc)
  case Nil
  show ?case by (simp add: points_for_Nil)
next
  case (Cons m ms)
  show ?case
  proof (cases "closest_before ss m")
    case None
    then show ?thesis by (simp add: Cons points_for_skip)
  next
    case (Some s)
    then show ?thesis by (simp add: Cons points_for_point point_of_def Let_def)
  qed
qed

lemma paired_points:
  "list_all2 (\<lambda>m pt. \<exists>s. nearest_preceding ss m s \<and> pt = point_of strategy m s)
     (filter (has_preceding ss) ms) (points_for strategy ss ms)"
proof (induction ms)
  case Nil
  show ?case by (simp add: points_for_Nil)
next
  case (Cons m ms)
  show ?case
  proof (cases "closest_before ss m")
    case None
    then have "\<not> has_preceding ss m" by (simp add: closest_before_None)
    with None Cons show ?thesis by (simp add: points_for_skip)
  next
    case (Some s)
    then have "has_preceding ss m" using closest_before_None [of ss m] by simp
    moreover have "nearest_preceding ss m s" using Some by (rule closest_before_Some)
    ultimately show ?thesis using Cons by (auto simp: points_for_point [OF Some])
  qed
qed

lemma points_timestamps_subset:
  "set (map p_timestamp (points_for strategy ss ms)) \<subseteq> set (map m_timestamp ms)"
proof (induction ms)
  case Nil
  show ?case by (simp add: points_for_Nil)
next
  case (Cons m ms)
  then show ?case
    by (cases "closest_before ss m") (auto simp: points_for_skip points_for_point point_of_def)
qed

lemma points_sorted:
  assumes "sorted (map m_timestamp ms)"
  shows "sorted (map p_timestamp (points_for strategy ss ms))"
  using assms
proof (induction ms)
  case Nil
  show ?case by (simp add: points_for_Nil)
next
  case (Cons m ms)
  then have s: "sorted (map p_timestamp (points_for strategy ss ms))"
    and le: "\<forall>t \<in> set (map m_timestamp ms). m_timestamp m \<le> t" by simp_all
  from le points_timestamps_subset [of strategy ss ms]
  have "\<forall>t \<in> set (map p_timestamp (points_for strategy ss ms)). m_timestamp m \<le> t"
    by blast
  with s show ?case
    by (cases "closest_before ss m") (simp_all add: points_for_skip points_for_point point_of_def)
qed

lemma nearest_preceding_set:
  "set ss = set ss' \<Longrightarrow> nearest_preceding ss = nearest_preceding ss'"
  by (simp add: nearest_preceding_def fun_eq_iff)

lemma has_preceding_set:
  "set ss = set ss' \<Longrightarrow> has_preceding ss = has_preceding ss'"
  by (simp add: has_preceding_def fun_eq_iff)

lemma marketsInRange_selected:
  "mset (marketsInRange w (marketId strategy) from to) =
     mset (filter (market_selected strategy from to) (marketSnapshots w))"
  by (simp add: marketsInRange_def market_selected_def)

lemma sentimentsInRange_selected:
  "set (sentimentsInRange w (sentimentTag strategy) from to) =
     set (filter (sentiment_selected strategy from to) (sentimentSnapshots w))"
  by (simp add: sentimentsInRange_def sentiment_selected_def)

text \<open>
  Claim C7, as stated, at a market snapshot in the range whose only earlier sentiment
  snapshot is before the start of the range: the simulator returns no point for it.
\<close>

theorem backtest_counterexample:
  "\<lparr>m_marketId = ''CRYPTO_BTC'', m_timestamp = 20, probability = 3 / 4\<rparr>
       \<in> set (marketSnapshots early_sentiment_world)
   \<and> market_selected quiet_strategy 10 30
        \<lparr>m_marketId = ''CRYPTO_BTC'', m_timestamp = 20, probability = 3 / 4\<rparr>
   \<and> \<lparr>tag = ''CRYPTO'', s_timestamp = 5, score = 1 / 2\<rparr>
       \<in> set (sentimentSnapshots early_sentiment_world)
   \<and> tag \<lparr>tag = ''CRYPTO'', s_timestamp = 5, score = 1 / 2\<rparr> = sentimentTag quiet_strategy
   \<and> s_timestamp \<lparr>tag = ''CRYPTO'', s_timestamp = 5, score = 1 / 2\<rparr>
       \<le> m_timestamp \<lparr>m_marketId = ''CRYPTO_BTC'', m_timestamp = 20, probability = 3 / 4\<rparr>
   \<and> executionPoints
        (simulateStrategyExecution early_sentiment_world quiet_strategy (Some 10) (Some 30)) = []"
  by (simp add: early_sentiment_world_def quiet_strategy_def market_selected_def
        simulateStrategyExecution_def marketsInRange_def sentimentsInRange_def
        closest_before_def first_of_def)

text \<open>
  Claim C7, amended. Take the market snapshots of the strategy's market and the
  sentiment snapshots of its tag whose timestamps are in the time range. The simulator
  returns one point for each such market snapshot that has such a sentiment snapshot
  not later than it, in ascending order of the market timestamps; the point carries the
  market snapshot's timestamp and probability and the score of a nearest preceding such
  sentiment snapshot; market snapshots without one give no point; and the count of
  executions is the number of points whose flag is set.
\<close>

theorem backtest_points:
  fixes w strategy fromTimestamp toTimestamp
  defines "to \<equiv> (case toTimestamp of Some t \<Rightarrow> t | None \<Rightarrow> clock w)"
  defines "from \<equiv> (case fromTimestamp of Some t \<Rightarrow> t | None \<Rightarrow> to - 7 * day_ms)"
  defines "ss \<equiv> filter (sentiment_selected strategy from to) (sentimentSnapshots w)"
  defines "r \<equiv> simulateStrategyExecution w strategy fromTimestamp toTimestamp"
  shows "(\<exists>ms. mset ms = mset (filter (market_selected strategy from to) (marketSnapshots w))
             \<and> sorted (map m_timestamp ms)
             \<and> list_all2 (\<lambda>m pt. \<exists>s. nearest_preceding ss m s \<and> pt = point_of strategy m s)
                  (filter (has_preceding ss) ms) (executionPoints r))
       \<and> sorted (map p_timestamp (executionPoints r))
       \<and> totalExecutions r = length (filter wouldExecute (executionPoints r))"
proof -
  let ?ms = "marketsInRange w (marketId strategy) from to"
  let ?ss = "sentimentsInRange w (sentimentTag strategy) from to"
  have r: "r = simulate_loop strategy ?ss ?ms \<lparr>executionPoints = [], totalExecutions = 0\<rparr>"
    unfolding r_def from_def to_def simulateStrategyExecution_def Let_def ..
  have pts: "executionPoints r = points_for strategy ?ss ?ms"
    and tot: "totalExecutions r = length (filter wouldExecute (points_for strategy ?ss ?ms))"
    unfolding r by (simp_all add: simulate_loop_points simulate_loop_total)
  have set: "set ?ss = set ss" unfolding ss_def by (rule sentimentsInRange_selected)
  have sorted: "sorted (map m_timestamp ?ms)"
    unfolding marketsInRange_def by (rule sorted_sort_key)
  have "list_all2 (\<lambda>m pt. \<exists>s. nearest_preceding ?ss m s \<and> pt = point_of strategy m s)
          (filter (has_preceding ?ss) ?ms) (points_for strategy ?ss ?ms)"
    by (rule paired_points)
  then have paired: "list_all2 (\<lambda>m pt. \<exists>s. nearest_preceding ss m s \<and> pt = point_of strategy m s)
          (filter (has_preceding ss) ?ms) (executionPoints r)"
    by (simp only: nearest_preceding_set [OF set] has_preceding_set [OF set] pts)
  have "mset ?ms = mset (filter (market_selected strategy from to) (marketSnapshots w))"
    by (rule marketsInRange_selected)
  with sorted paired
  have first: "\<exists>ms. mset ms = mset (filter (market_selected strategy from to) (marketSnapshots w))
             \<and> sorted (map m_timestamp ms)
             \<and> list_all2 (\<lambda>m pt. \<exists>s. nearest_preceding ss m s \<and> pt = point_of strategy m s)
                  (filter (has_preceding ss) ms) (executionPoints r)" by blast
  have "sorted (map p_timestamp (executionPoints r))"
    unfolding pts using sorted by (rule points_sorted)
  with first tot pts show ?thesis by simp
qed

theorem backtest_points_witness:
  "(\<exists>ms. mset ms = mset (filter (market_selected quiet_strategy 150 1000) (marketSnapshots backtest_world))
        \<and> sorted (map m_timestamp ms)
        \<and> list_all2
             (\<lambda>m pt. \<exists>s. nearest_preceding
                            (filter (sentiment_selected quiet_strategy 150 1000)
                               (sentimentSnapshots backtest_world)) m s
                         \<and> pt = point_of quiet_strategy m s)
             (filter (has_preceding (filter (sentiment_selected quiet_strategy 150 1000)
                                       (sentimentSnapshots backtest_world))) ms)
             (executionPoints
                (simulateStrategyExecution backtest_world quiet_strategy (Some 150) (Some 1000))))
   \<and> simulateStrategyExecution backtest_world quiet_strategy (Some 150) (Some 1000) =
       \<lparr>executionPoints =
          [\<lparr>p_timestamp = 200, p_probability = 5 / 8, p_sentiment = 1 / 8, wouldExecute = True\<rparr>,
           \<lparr>p_timestamp = 300, p_probability = 3 / 8, p_sentiment = 1 / 4, wouldExecute = False\<rparr>,
           \<lparr>p_timestamp = 400, p_probability = 1 / 2, p_sentiment = 1 / 4, wouldExecute = True\<rparr>,
           \<lparr>p_timestamp = 500, p_probability = 7 / 8, p_sentiment = - 1 / 4, wouldExecute = False\<rparr>],
         totalExecutions = 2\<rparr>"
proof -
  have v: "simulateStrategyExecution backtest_world quiet_strategy (Some 150) (Some 1000) =
       \<lparr>executionPoints =
          [\<lparr>p_timestamp = 200, p_probability = 5 / 8, p_sentiment = 1 / 8, wouldExecute = True\<rparr>,
           \<lparr>p_timestamp = 300, p_probability = 3 / 8, p_sentiment = 1 / 4, wouldExecute = False\<rparr>,
           \<lparr>p_timestamp = 400, p_probability = 1 / 2, p_sentiment = 1 / 4, wouldExecute = True\<rparr>,
           \<lparr>p_timestamp = 500, p_probability = 7 / 8, p_sentiment = - 1 / 4, wouldExecute = False\<rparr>],
         totalExecutions = 2\<rparr>"
    by (simp add: simulateStrategyExecution_def backtest_world_def quiet_strategy_def
          marketsInRange_def sentimentsInRange_def closest_before_def first_of_def)
  from backtest_points [where w = backtest_world and strategy = quiet_strategy
      and fromTimestamp = "Some 150" and toTimestamp = "Some 1000"]
  have "\<exists>ms. mset ms = mset (filter (market_selected quiet_strategy 150 1000) (marketSnapshots backtest_world))
        \<and> sorted (map m_timestamp ms)
        \<and> list_all2
             (\<lambda>m pt. \<exists>s. nearest_preceding
                            (filter (sentiment_selected quiet_strategy 150 1000)
                               (sentimentSnapshots backtest_world)) m s
                         \<and> pt = point_of quiet_strategy m s)
             (filter (has_preceding (filter (sentiment_selected quiet_strategy 150 1000)
                                       (sentimentSnapshots backtest_world))) ms)
             (executionPoints
                (simulateStrategyExecution backtest_world quiet_strategy (Some 150) (Some 1000)))"
    by (simp only: option.case)
  with v show ?thesis by (rule conjI [rotated])
qed

section \<open>The shared predicate\<close>

text \<open>
  Claim C8. The would-execute flag the simulator computes for a market snapshot and the
  sentiment snapshot paired with it equals the decision of the engine on latest
  snapshots carrying the same probability and the same score.
\<close>

theorem simulator_shares_engine_predicate:
  assumes "latestMarketSnapshot w (marketId strategy) = Some m"
      and "latestSentimentSnapshot w (sentimentTag strategy) = Some s"
      and "closest_before sentiments m' = Some s'"
      and "probability m' = probability m" and "score s' = score s"
  shows "map wouldExecute (executionPoints
           (simulate_loop strategy sentiments [m'] \<lparr>executionPoints = [], totalExecutions = 0\<rparr>))
         = [shouldExecute (shouldExecuteStrategy w strategy)]"
  using assms by (simp add: shouldExecuteStrategy_def decide_def Let_def)

theorem simulator_shares_engine_predicate_witness:
  "latestMarketSnapshot example_world (marketId example_strategy) =
      Some \<lparr>m_marketId = ''CRYPTO_BTC'', m_timestamp = 2000, probability = 6 / 10\<rparr>
   \<and> latestSentimentSnapshot example_world (sentimentTag example_strategy) =
      Some \<lparr>tag = ''CRYPTO'', s_timestamp = 900, score = 1 / 10\<rparr>
   \<and> closest_before [\<lparr>tag = ''CRYPTO'', s_timestamp = 500, score = 1 / 10\<rparr>]
        \<lparr>m_marketId = ''CRYPTO_BTC'', m_timestamp = 700, probability = 6 / 10\<rparr>
      = Some \<lparr>tag = ''CRYPTO'', s_timestamp = 500, score = 1 / 10\<rparr>
   \<and> map wouldExecute (executionPoints
           (simulate_loop example_strategy [\<lparr>tag = ''CRYPTO'', s_timestamp = 500, score = 1 / 10\<rparr>]
              [\<lparr>m_marketId = ''CRYPTO_BTC'', m_timestamp = 700, probability = 6 / 10\<rparr>]
              \<lparr>executionPoints = [], totalExecutions = 0\<rparr>))
       = [shouldExecute (shouldExecuteStrategy example_world example_strategy)]"
  using simulator_shares_engine_predicate [of example_world example_strategy
      "\<lparr>m_marketId = ''CRYPTO_BTC'', m_timestamp = 2000, probability = 6 / 10\<rparr>"
      "\<lparr>tag = ''CRYPTO'', s_timestamp = 900, score = 1 / 10\<rparr>"
      "[\<lparr>tag = ''CRYPTO'', s_timestamp = 500, score = 1 / 10\<rparr>]"
      "\<lparr>m_marketId = ''CRYPTO_BTC'', m_timestamp = 700, probability = 6 / 10\<rparr>"
      "\<lparr>tag = ''CRYPTO'', s_timestamp = 500, score = 1 / 10\<rparr>"]
  by (simp add: example_strategy_def example_world_def latestMarketSnapshot_def
        latestSentimentSnapshot_def closest_before_def first_of_def)

section \<open>The contract settles a strategy at most once\<close>

lemma executed_stays:
  assumes "stores c a = Some store" "store i = Some st" "executed st"
  shows "\<exists>store' st'. stores (submit c call) a = Some store' \<and> store' i = Some st' \<and> executed st'"
proof (cases call)
  case (RegisterStrategy a' i' m t p s n x ex)
  then show ?thesis using assms
    by (auto simp: submit_def register_strategy_def Let_def split: option.splits)
next
  case (ExecuteStrategy a' i' m p s)
  then show ?thesis using assms
    by (auto simp: submit_def execute_strategy_def Let_def split: option.splits)
qed

lemma executed_stays_all:
  assumes "stores c a = Some store" "store i = Some st" "executed st"
  shows "\<exists>store' st'. stores (submit_all calls c) a = Some store' \<and> store' i = Some st' \<and> executed st'"
  using assms
proof (induction calls arbitrary: c store st)
  case Nil
  then show ?case by (simp add: submit_all_def)
next
  case (Cons call calls)
  from executed_stays [OF Cons.prems, of call]
  obtain store' st' where "stores (submit c call) a = Some store'" "store' i = Some st'" "executed st'"
    by blast
  from Cons.IH [OF this] show ?case by (simp add: submit_all_def)
qed

lemma execute_sets_flag:
  assumes "execute_strategy a i m p s c = Inr c'"
  shows "\<exists>store st. stores c' a = Some store \<and> store i = Some st \<and> executed st"
  using assms by (auto simp: execute_strategy_def Let_def split: option.splits if_splits)

text \<open>
  Claim C10. A successful \<open>execute_strategy\<close> sets the executed flag of the strategy,
  and after it, whatever transactions are submitted in between, every
  \<open>execute_strategy\<close> for the same owner and strategy identifier aborts with
  \<open>E_STRATEGY_ALREADY_EXECUTED\<close>.
\<close>

theorem at_most_one_settlement:
  assumes "execute_strategy a i m p s c = Inr c'"
  shows "snd (snd (get_strategy_state a i c'))
       \<and> execute_strategy a i m' p' s' (submit_all calls c') = Inl E_STRATEGY_ALREADY_EXECUTED"
proof -
  from execute_sets_flag [OF assms] obtain store st
    where h: "stores c' a = Some store" "store i = Some st" "executed st" by blast
  from executed_stays_all [OF h, of calls] obtain store' st'
    where h': "stores (submit_all calls c') a = Some store'" "store' i = Some st'" "executed st'" by blast
  from h have "snd (snd (get_strategy_state a i c'))" by (simp add: get_strategy_state_def)
  moreover from h' have "execute_strategy a i m' p' s' (submit_all calls c') = Inl E_STRATEGY_ALREADY_EXECUTED"
    by (simp add: execute_strategy_def)
  ultimately show ?thesis by simp
qed

theorem at_most_one_settlement_witness:
  "execute_strategy 1 ''s1'' ''CRYPTO_BTC'' 6000 5500 example_chain
     = Inr (submit example_chain (ExecuteStrategy 1 ''s1'' ''CRYPTO_BTC'' 6000 5500))
   \<and> snd (snd (get_strategy_state 1 ''s1''
        (submit example_chain (ExecuteStrategy 1 ''s1'' ''CRYPTO_BTC'' 6000 5500))))
   \<and> execute_strategy 1 ''s1'' ''CRYPTO_BTC'' 9000 9000
        (submit_all example_calls (submit example_chain (ExecuteStrategy 1 ''s1'' ''CRYPTO_BTC'' 6000 5500)))
      = Inl E_STRATEGY_ALREADY_EXECUTED"
proof -
  have h: "execute_strategy 1 ''s1'' ''CRYPTO_BTC'' 6000 5500 example_chain
     = Inr (submit example_chain (ExecuteStrategy 1 ''s1'' ''CRYPTO_BTC'' 6000 5500))"
    by (simp add: example_chain_def submit_def register_strategy_def execute_strategy_def Let_def)
  from at_most_one_settlement [OF h, of "''CRYPTO_BTC''" 9000 9000 example_calls] h
  show ?thesis by simp
qed

end
